theory Spec2Isabelle
  imports Main "HOL-Library.Word"
begin

section \<open>The configuration manager of charon\<close>

text \<open>
  A shallow embedding of \<^verbatim>\<open>Source/charon/config/configuration_manager.c\<close>.
  Every method of the manager takes the private state \<open>this\<close>; a method that returns a
  \<^verbatim>\<open>status_t\<close> and writes an out-parameter on \<^verbatim>\<open>SUCCESS\<close> returns a sum here:
  \<open>Inr v\<close> is \<^verbatim>\<open>SUCCESS\<close> with \<open>v\<close> written, \<open>Inl e\<close> is the status \<open>e\<close> with the
  out-parameter untouched. The lookups return the state next to their result, the
  \<^verbatim>\<open>void\<close> registration methods return the new state.
\<close>

subsection \<open>Bytes, C strings and chunks\<close>

type_synonym u_int8_t = "8 word"
type_synonym u_int32_t = "32 word"

text \<open>
  A \<^verbatim>\<open>char *\<close> is the memory it points to, as a list of bytes; the string is what stands
  before the first zero byte. A buffer that holds no zero byte is not a C string; the
  model reads such a buffer up to its end.
\<close>

type_synonym c_string = "u_int8_t list"

text \<open>A \<^verbatim>\<open>chunk_t\<close> is \<^verbatim>\<open>ptr\<close> and \<^verbatim>\<open>len\<close>: the \<open>len\<close> bytes at \<open>ptr\<close>.\<close>

type_synonym chunk_t = "u_int8_t list"

fun strlen :: "c_string \<Rightarrow> nat" where
  "strlen [] = 0"
| "strlen (c # cs) = (if c = 0 then 0 else Suc (strlen cs))"

fun strcmp :: "c_string \<Rightarrow> c_string \<Rightarrow> int" where
  "strcmp [] [] = 0"
| "strcmp [] (b # bs) = - uint b"
| "strcmp (a # as) [] = uint a"
| "strcmp (a # as) (b # bs) =
     (if a \<noteq> b then uint a - uint b
      else if a = 0 then 0
      else strcmp as bs)"

text \<open>\<^verbatim>\<open>memcpy (dst, src, n)\<close>: the first \<open>n\<close> bytes of the source.\<close>

definition memcpy :: "u_int8_t list \<Rightarrow> nat \<Rightarrow> u_int8_t list" where
  "memcpy src n = take n src"

text \<open>\<^verbatim>\<open>strcpy (dst, src)\<close>: the string and its terminator.\<close>

definition strcpy :: "c_string \<Rightarrow> c_string" where
  "strcpy src = take (strlen src) src @ [0]"

text \<open>The string a buffer holds, without the terminator.\<close>

definition c_str :: "c_string \<Rightarrow> u_int8_t list" where
  "c_str s = takeWhile (\<lambda>c. c \<noteq> 0) s"

text \<open>A string literal of the source: its characters and the terminator.\<close>

definition literal :: "string \<Rightarrow> c_string" where
  "literal s = map (\<lambda>c. of_nat (of_char c)) s @ [0]"

subsection \<open>Status codes\<close>

text \<open>The two statuses other than \<^verbatim>\<open>SUCCESS\<close> that the manager returns.\<close>

datatype error = NOT_FOUND | FAILED

subsection \<open>Hosts and identifications\<close>

text \<open>
  Modelled from the spec: \<^verbatim>\<open>host_t\<close> is declared outside this file. A Host is an address
  and a port with a default-route marker; \<^verbatim>\<open>ip_is_equal\<close> compares the addresses,
  \<^verbatim>\<open>is_default_route\<close> reads the marker.
\<close>

record host_t =
  address :: "32 word"
  port :: "16 word"
  default_route :: bool

text \<open>
  Modelled from the spec: \<^verbatim>\<open>host_create\<close>, which \<^verbatim>\<open>init_config_create\<close> calls, is declared
  outside this file. It reads the address from its dotted decimal string; the host of
  the address 0.0.0.0 is the default-route host, which matches any local address.
\<close>

fun dotted_decimal :: "c_string \<Rightarrow> 32 word \<Rightarrow> 32 word \<Rightarrow> 32 word" where
  "dotted_decimal [] high octet = high * 256 + octet"
| "dotted_decimal (c # cs) high octet =
     (if c = 0 then high * 256 + octet
      else if c = 0x2E then dotted_decimal cs (high * 256 + octet) 0
      else dotted_decimal cs high (octet * 10 + ucast (c - 0x30)))"

definition host_create :: "c_string \<Rightarrow> 16 word \<Rightarrow> host_t" where
  "host_create address' port' =
     \<lparr>address = dotted_decimal address' 0 0, port = port',
      default_route = (dotted_decimal address' 0 0 = 0)\<rparr>"

text \<open>The macro \<^verbatim>\<open>IKEV2_UDP_PORT\<close> is declared outside this file: the UDP port of IKEv2.\<close>

definition IKEV2_UDP_PORT :: "16 word" where
  "IKEV2_UDP_PORT = 500"

definition ip_is_equal :: "host_t \<Rightarrow> host_t \<Rightarrow> bool" where
  "ip_is_equal this other = (address this = address other)"

definition is_default_route :: "host_t \<Rightarrow> bool" where
  "is_default_route this = default_route this"

text \<open>
  Modelled from the spec: \<^verbatim>\<open>identification_t\<close> is declared outside this file. An
  Identity is a kind and a value, \<^verbatim>\<open>equals\<close> is structural equality of both, and
  \<^verbatim>\<open>identification_create_from_string\<close> builds the Identity of a kind from a string.
\<close>

datatype id_type_t = ID_IPV4_ADDR | ID_FQDN

record identification_t =
  id_type :: id_type_t
  encoded :: "u_int8_t list"

definition equals :: "identification_t \<Rightarrow> identification_t \<Rightarrow> bool" where
  "equals this other = (id_type this = id_type other \<and> encoded this = encoded other)"

definition identification_create_from_string :: "id_type_t \<Rightarrow> c_string \<Rightarrow> identification_t" where
  "identification_create_from_string type id_string =
     \<lparr>id_type = type, encoded = c_str id_string\<rparr>"

subsection \<open>Policy objects and the store they live in\<close>

text \<open>
  The enumerations are declared outside this file; each is kept with the constants this
  file names.
\<close>

datatype encryption_algorithm_t = ENCR_AES_CBC
datatype integrity_algorithm_t = AUTH_HMAC_MD5_96 | AUTH_HMAC_SHA1_96
datatype pseudo_random_function_t = PRF_HMAC_MD5
datatype diffie_hellman_group_t = MODP_1024_BIT
datatype extended_sequence_numbers_t = NO_EXT_SEQ_NUMBERS
datatype protocol_id_t = AH | ESP
datatype transform_type_t =
  ENCRYPTION_ALGORITHM | INTEGRITY_ALGORITHM | DIFFIE_HELLMAN_GROUP | EXTENDED_SEQUENCE_NUMBERS
datatype auth_method_t = RSA_DIGITAL_SIGNATURE
datatype ts_type_t = TS_IPV4_ADDR_RANGE

text \<open>The fields of \<^verbatim>\<open>ike_proposal_t\<close> that \<^verbatim>\<open>load_default_config\<close> assigns.\<close>

record ike_proposal_t =
  encryption_algorithm :: encryption_algorithm_t
  encryption_algorithm_key_length :: nat
  integrity_algorithm :: integrity_algorithm_t
  integrity_algorithm_key_length :: nat
  pseudo_random_function :: pseudo_random_function_t
  pseudo_random_function_key_length :: nat
  diffie_hellman_group :: diffie_hellman_group_t

text \<open>
  Modelled from the spec: traffic selectors and child proposals are declared outside this
  file. A traffic selector is what \<^verbatim>\<open>traffic_selector_create_from_string\<close> is given; a
  child proposal is its number and the algorithms added to it, in order.
\<close>

record traffic_selector_t =
  ts_protocol :: nat
  ts_type :: ts_type_t
  from_addr :: "32 word"
  from_port :: "16 word"
  to_addr :: "32 word"
  to_port :: "16 word"

definition traffic_selector_create_from_string ::
  "nat \<Rightarrow> ts_type_t \<Rightarrow> c_string \<Rightarrow> 16 word \<Rightarrow> c_string \<Rightarrow> 16 word \<Rightarrow> traffic_selector_t" where
  "traffic_selector_create_from_string protocol type from_addr' from_port' to_addr' to_port' =
     \<lparr>ts_protocol = protocol, ts_type = type, from_addr = dotted_decimal from_addr' 0 0,
      from_port = from_port', to_addr = dotted_decimal to_addr' 0 0, to_port = to_port'\<rparr>"

datatype transform_id_t =
    Encryption encryption_algorithm_t
  | Integrity integrity_algorithm_t
  | Group diffie_hellman_group_t
  | Sequence_numbers extended_sequence_numbers_t

record child_proposal_t =
  proposal_number :: nat
  algorithms :: "(protocol_id_t \<times> transform_type_t \<times> transform_id_t \<times> nat) list"

definition child_proposal_create :: "nat \<Rightarrow> child_proposal_t" where
  "child_proposal_create number = \<lparr>proposal_number = number, algorithms = []\<rparr>"

definition add_algorithm ::
  "child_proposal_t \<Rightarrow> protocol_id_t \<Rightarrow> transform_type_t \<Rightarrow> transform_id_t \<Rightarrow> nat \<Rightarrow> child_proposal_t" where
  "add_algorithm this proto type algo key_size =
     this\<lparr>algorithms := algorithms this @ [(proto, type, algo, key_size)]\<rparr>"

text \<open>
  Modelled from the spec: \<^verbatim>\<open>init_config_t\<close> and \<^verbatim>\<open>sa_config_t\<close> are declared outside this
  file. An Initiation-Policy is the local and the remote Host and the proposals added to
  it; a Session-Policy is the local and the remote Identity, the authentication method,
  the lifetime, the traffic selectors of the initiator and of the responder, and the
  child proposals added to it.
\<close>

type_synonym init_config_ptr = nat
type_synonym sa_config_ptr = nat

record init_config_t =
  get_my_host :: host_t
  get_other_host :: host_t
  ike_proposals :: "(nat \<times> ike_proposal_t) list"

record sa_config_t =
  get_my_id :: identification_t
  get_other_id :: identification_t
  auth_method :: auth_method_t
  ike_sa_lifetime :: nat
  traffic_selectors_initiator :: "traffic_selector_t list"
  traffic_selectors_responder :: "traffic_selector_t list"
  child_proposals :: "child_proposal_t list"

text \<open>
  The manager holds \<^verbatim>\<open>init_config_t *\<close> and \<^verbatim>\<open>sa_config_t *\<close>: addresses, compared with
  \<^verbatim>\<open>==\<close>. The objects live outside the manager, in a store from addresses to objects.
  The file never tests such a pointer before it follows it, so the store is total.
\<close>

record store =
  init_config_at :: "init_config_ptr \<Rightarrow> init_config_t"
  sa_config_at :: "sa_config_ptr \<Rightarrow> sa_config_t"

text \<open>
  A constructor writes the new object at the address the allocator returns, which is its
  first argument here; a method of an object writes the object at its address.
\<close>

definition init_config_create ::
  "init_config_ptr \<Rightarrow> c_string \<Rightarrow> c_string \<Rightarrow> 16 word \<Rightarrow> 16 word \<Rightarrow> store \<Rightarrow> store" where
  "init_config_create new my_addr other_addr my_port other_port st =
     st\<lparr>init_config_at := (init_config_at st)
       (new := \<lparr>get_my_host = host_create my_addr my_port,
                get_other_host = host_create other_addr other_port,
                ike_proposals = []\<rparr>)\<rparr>"

definition init_config_add_proposal ::
  "init_config_ptr \<Rightarrow> nat \<Rightarrow> ike_proposal_t \<Rightarrow> store \<Rightarrow> store" where
  "init_config_add_proposal this priority proposal st =
     st\<lparr>init_config_at := (init_config_at st)
       (this := (init_config_at st this)
          \<lparr>ike_proposals := ike_proposals (init_config_at st this) @ [(priority, proposal)]\<rparr>)\<rparr>"

definition sa_config_create ::
  "sa_config_ptr \<Rightarrow> id_type_t \<Rightarrow> c_string \<Rightarrow> id_type_t \<Rightarrow> c_string \<Rightarrow> auth_method_t \<Rightarrow> nat
   \<Rightarrow> store \<Rightarrow> store" where
  "sa_config_create new my_id_type my_id other_id_type other_id auth_method' ike_sa_lifetime' st =
     st\<lparr>sa_config_at := (sa_config_at st)
       (new := \<lparr>get_my_id = identification_create_from_string my_id_type my_id,
                get_other_id = identification_create_from_string other_id_type other_id,
                auth_method = auth_method', ike_sa_lifetime = ike_sa_lifetime',
                traffic_selectors_initiator = [], traffic_selectors_responder = [],
                child_proposals = []\<rparr>)\<rparr>"

definition add_traffic_selector_initiator :: "sa_config_ptr \<Rightarrow> traffic_selector_t \<Rightarrow> store \<Rightarrow> store" where
  "add_traffic_selector_initiator this ts st =
     st\<lparr>sa_config_at := (sa_config_at st)
       (this := (sa_config_at st this)
          \<lparr>traffic_selectors_initiator := traffic_selectors_initiator (sa_config_at st this) @ [ts]\<rparr>)\<rparr>"

definition add_traffic_selector_responder :: "sa_config_ptr \<Rightarrow> traffic_selector_t \<Rightarrow> store \<Rightarrow> store" where
  "add_traffic_selector_responder this ts st =
     st\<lparr>sa_config_at := (sa_config_at st)
       (this := (sa_config_at st this)
          \<lparr>traffic_selectors_responder := traffic_selectors_responder (sa_config_at st this) @ [ts]\<rparr>)\<rparr>"

definition sa_config_add_proposal :: "sa_config_ptr \<Rightarrow> child_proposal_t \<Rightarrow> store \<Rightarrow> store" where
  "sa_config_add_proposal this proposal st =
     st\<lparr>sa_config_at := (sa_config_at st)
       (this := (sa_config_at st this)
          \<lparr>child_proposals := child_proposals (sa_config_at st this) @ [proposal]\<rparr>)\<rparr>"

subsection \<open>Entries and the private state\<close>

record configuration_entry_t =
  name :: c_string
  init_config :: init_config_ptr
  sa_config :: sa_config_ptr

record preshared_secret_entry_t =
  identification :: identification_t
  preshared_secret :: chunk_t

text \<open>
  A key object is \<^verbatim>\<open>rsa_private_key_create ()\<close> followed by \<^verbatim>\<open>set_key\<close>, both declared
  outside this file: the object is kept as the chunk it was set from.
\<close>

record rsa_private_key_entry_t =
  private_identification :: identification_t
  private_key :: chunk_t

record rsa_public_key_entry_t =
  public_identification :: identification_t
  public_key :: chunk_t

text \<open>
  The linked lists are lists: \<^verbatim>\<open>insert_last\<close> appends, \<^verbatim>\<open>insert_first\<close> prepends,
  \<^verbatim>\<open>remove_first\<close> takes the head, and a forward iterator visits the elements from the
  head on.
\<close>

record private_configuration_manager_t =
  configurations :: "configuration_entry_t list"
  init_configs :: "init_config_ptr list"
  sa_configs :: "sa_config_ptr list"
  preshared_secrets :: "preshared_secret_entry_t list"
  rsa_private_keys :: "rsa_private_key_entry_t list"
  rsa_public_keys :: "rsa_public_key_entry_t list"
  max_retransmit_count :: u_int32_t
  first_retransmit_timeout :: u_int32_t
  half_open_ike_sa_timeout :: u_int32_t

definition configuration_entry_create ::
  "c_string \<Rightarrow> init_config_ptr \<Rightarrow> sa_config_ptr \<Rightarrow> configuration_entry_t" where
  "configuration_entry_create name' init_config' sa_config' =
     \<lparr>name = strcpy name', init_config = init_config', sa_config = sa_config'\<rparr>"

subsection \<open>Timing\<close>

text \<open>
  \<^verbatim>\<open>int new_timeout\<close> and \<^verbatim>\<open>int i\<close> are 32-bit two's complement values that wrap;
  \<^verbatim>\<open>i < retransmit_count\<close> converts \<open>i\<close> to unsigned, and the result is converted back
  to \<^verbatim>\<open>u_int32_t\<close> on assignment to \<^verbatim>\<open>*timeout\<close>.
\<close>

function retransmit_loop :: "32 word \<Rightarrow> u_int32_t \<Rightarrow> 32 word \<Rightarrow> 32 word" where
  "retransmit_loop i retransmit_count new_timeout =
     (if i < retransmit_count
      then retransmit_loop (i + 1) retransmit_count (new_timeout * 2)
      else new_timeout)"
  by pat_completeness auto
termination
proof (relation "measure (\<lambda>(i, retransmit_count, new_timeout). unat retransmit_count - unat i)")
  show "wf (measure (\<lambda>(i, retransmit_count, new_timeout). unat retransmit_count - unat i))"
    by simp
next
  fix i retransmit_count new_timeout :: "32 word"
  assume less: "i < retransmit_count"
  have "unat retransmit_count < 2 ^ 32"
    using unsigned_less [of retransmit_count, where 'a = nat] by simp
  moreover from less have below: "unat i < unat retransmit_count"
    by (simp add: word_less_nat_alt)
  ultimately have "unat i + 1 < 2 ^ 32"
    by simp
  then have "unat (i + 1) = Suc (unat i)"
    by (simp add: unat_word_ariths)
  with below
  show "((i + 1, retransmit_count, new_timeout * 2), (i, retransmit_count, new_timeout))
      \<in> measure (\<lambda>(i, retransmit_count, new_timeout). unat retransmit_count - unat i)"
    by simp
qed

declare retransmit_loop.simps [simp del]

definition get_retransmit_timeout ::
  "private_configuration_manager_t \<Rightarrow> u_int32_t \<Rightarrow> (error + u_int32_t) \<times> private_configuration_manager_t" where
  "get_retransmit_timeout this retransmit_count =
     (if retransmit_count > max_retransmit_count this \<and> max_retransmit_count this \<noteq> 0
      then (Inl FAILED, this)
      else (Inr (retransmit_loop 0 retransmit_count (first_retransmit_timeout this)), this))"

definition get_half_open_ike_sa_timeout ::
  "private_configuration_manager_t \<Rightarrow> u_int32_t \<times> private_configuration_manager_t" where
  "get_half_open_ike_sa_timeout this = (half_open_ike_sa_timeout this, this)"

subsection \<open>Resolving policies\<close>

text \<open>
  Each scan is the \<^verbatim>\<open>while (iterator->has_next (iterator))\<close> loop of its method, on the
  elements the iterator has not visited yet; \<^verbatim>\<open>break\<close> ends the recursion.
\<close>

fun init_config_for_host_scan ::
  "store \<Rightarrow> configuration_entry_t list \<Rightarrow> host_t \<Rightarrow> host_t \<Rightarrow> error + init_config_ptr" where
  "init_config_for_host_scan st [] my_host other_host = Inl NOT_FOUND"
| "init_config_for_host_scan st (entry # rest) my_host other_host =
     (let config_my_host = get_my_host (init_config_at st (init_config entry));
          config_other_host = get_other_host (init_config_at st (init_config entry))
      in if ip_is_equal config_other_host other_host then
           (if is_default_route config_my_host then Inr (init_config entry)
            else if ip_is_equal config_my_host my_host then Inr (init_config entry)
            else init_config_for_host_scan st rest my_host other_host)
         else if is_default_route config_other_host then
           (if is_default_route config_my_host then Inr (init_config entry)
            else if ip_is_equal config_my_host my_host then Inr (init_config entry)
            else init_config_for_host_scan st rest my_host other_host)
         else init_config_for_host_scan st rest my_host other_host)"

definition get_init_config_for_host ::
  "store \<Rightarrow> private_configuration_manager_t \<Rightarrow> host_t \<Rightarrow> host_t
   \<Rightarrow> (error + init_config_ptr) \<times> private_configuration_manager_t" where
  "get_init_config_for_host st this my_host other_host =
     (init_config_for_host_scan st (configurations this) my_host other_host, this)"

text \<open>
  The same loop with the calls it makes on the two hosts of an entry, in the order it
  makes them: which host of which initiation policy, and the argument.
\<close>

datatype host_var = Config_my_host | Config_other_host

datatype host_call =
    Ip_is_equal init_config_ptr host_var host_t
  | Is_default_route init_config_ptr host_var

fun init_config_for_host_scan_calls ::
  "store \<Rightarrow> configuration_entry_t list \<Rightarrow> host_t \<Rightarrow> host_t
   \<Rightarrow> (error + init_config_ptr) \<times> host_call list" where
  "init_config_for_host_scan_calls st [] my_host other_host = (Inl NOT_FOUND, [])"
| "init_config_for_host_scan_calls st (entry # rest) my_host other_host =
     (let config_my_host = get_my_host (init_config_at st (init_config entry));
          config_other_host = get_other_host (init_config_at st (init_config entry));
          other_equal = Ip_is_equal (init_config entry) Config_other_host other_host;
          other_default = Is_default_route (init_config entry) Config_other_host;
          my_default = Is_default_route (init_config entry) Config_my_host;
          my_equal = Ip_is_equal (init_config entry) Config_my_host my_host
      in if ip_is_equal config_other_host other_host then
           (if is_default_route config_my_host
            then (Inr (init_config entry), [other_equal, my_default])
            else if ip_is_equal config_my_host my_host
            then (Inr (init_config entry), [other_equal, my_default, my_equal])
            else apsnd ((@) [other_equal, my_default, my_equal])
                   (init_config_for_host_scan_calls st rest my_host other_host))
         else if is_default_route config_other_host then
           (if is_default_route config_my_host
            then (Inr (init_config entry), [other_equal, other_default, my_default])
            else if ip_is_equal config_my_host my_host
            then (Inr (init_config entry), [other_equal, other_default, my_default, my_equal])
            else apsnd ((@) [other_equal, other_default, my_default, my_equal])
                   (init_config_for_host_scan_calls st rest my_host other_host))
         else apsnd ((@) [other_equal, other_default])
                (init_config_for_host_scan_calls st rest my_host other_host))"

fun init_config_for_name_scan :: "configuration_entry_t list \<Rightarrow> c_string \<Rightarrow> error + init_config_ptr" where
  "init_config_for_name_scan [] name' = Inl NOT_FOUND"
| "init_config_for_name_scan (entry # rest) name' =
     (if strcmp (name entry) name' = 0 then Inr (init_config entry)
      else init_config_for_name_scan rest name')"

definition get_init_config_for_name ::
  "private_configuration_manager_t \<Rightarrow> c_string
   \<Rightarrow> (error + init_config_ptr) \<times> private_configuration_manager_t" where
  "get_init_config_for_name this name' = (init_config_for_name_scan (configurations this) name', this)"

fun sa_config_for_name_scan :: "configuration_entry_t list \<Rightarrow> c_string \<Rightarrow> error + sa_config_ptr" where
  "sa_config_for_name_scan [] name' = Inl NOT_FOUND"
| "sa_config_for_name_scan (entry # rest) name' =
     (if strcmp (name entry) name' = 0 then Inr (sa_config entry)
      else sa_config_for_name_scan rest name')"

definition get_sa_config_for_name ::
  "private_configuration_manager_t \<Rightarrow> c_string
   \<Rightarrow> (error + sa_config_ptr) \<times> private_configuration_manager_t" where
  "get_sa_config_for_name this name' = (sa_config_for_name_scan (configurations this) name', this)"

text \<open>\<open>my_id\<close> is a pointer that may be \<^verbatim>\<open>NULL\<close>: \<open>None\<close>.\<close>

fun sa_config_for_init_config_and_id_scan ::
  "store \<Rightarrow> configuration_entry_t list \<Rightarrow> init_config_ptr \<Rightarrow> identification_t
   \<Rightarrow> identification_t option \<Rightarrow> error + sa_config_ptr" where
  "sa_config_for_init_config_and_id_scan st [] init_config' other_id my_id = Inl NOT_FOUND"
| "sa_config_for_init_config_and_id_scan st (entry # rest) init_config' other_id my_id =
     (if init_config entry = init_config' then
        (let config_my_id = get_my_id (sa_config_at st (sa_config entry));
             config_other_id = get_other_id (sa_config_at st (sa_config entry))
         in if equals config_other_id other_id then
              (case my_id of
                 None \<Rightarrow> Inr (sa_config entry)
               | Some my_id' \<Rightarrow>
                   if equals config_my_id my_id' then Inr (sa_config entry)
                   else sa_config_for_init_config_and_id_scan st rest init_config' other_id my_id)
            else sa_config_for_init_config_and_id_scan st rest init_config' other_id my_id)
      else sa_config_for_init_config_and_id_scan st rest init_config' other_id my_id)"

definition get_sa_config_for_init_config_and_id ::
  "store \<Rightarrow> private_configuration_manager_t \<Rightarrow> init_config_ptr \<Rightarrow> identification_t
   \<Rightarrow> identification_t option \<Rightarrow> (error + sa_config_ptr) \<times> private_configuration_manager_t" where
  "get_sa_config_for_init_config_and_id st this init_config' other_id my_id =
     (sa_config_for_init_config_and_id_scan st (configurations this) init_config' other_id my_id, this)"

subsection \<open>Registering policies and credentials\<close>

text \<open>The two \<open>found\<close> loops of \<^verbatim>\<open>add_new_configuration\<close>, on addresses.\<close>

fun found_scan :: "nat list \<Rightarrow> nat \<Rightarrow> bool" where
  "found_scan [] config = False"
| "found_scan (found_config # rest) config =
     (if config = found_config then True else found_scan rest config)"

definition add_new_configuration ::
  "private_configuration_manager_t \<Rightarrow> c_string \<Rightarrow> init_config_ptr \<Rightarrow> sa_config_ptr
   \<Rightarrow> private_configuration_manager_t" where
  "add_new_configuration this name' init_config' sa_config' =
     (let this1 = (if \<not> found_scan (init_configs this) init_config'
                   then this\<lparr>init_configs := init_config' # init_configs this\<rparr>
                   else this);
          this2 = (if \<not> found_scan (sa_configs this1) sa_config'
                   then this1\<lparr>sa_configs := sa_config' # sa_configs this1\<rparr>
                   else this1)
      in this2\<lparr>configurations :=
           configurations this2 @ [configuration_entry_create name' init_config' sa_config']\<rparr>)"

definition add_new_preshared_secret ::
  "private_configuration_manager_t \<Rightarrow> id_type_t \<Rightarrow> c_string \<Rightarrow> c_string
   \<Rightarrow> private_configuration_manager_t" where
  "add_new_preshared_secret this type id_string preshared_secret' =
     (let len = strlen preshared_secret' + 1;
          entry = \<lparr>identification = identification_create_from_string type id_string,
                   preshared_secret = memcpy preshared_secret' len\<rparr>
      in this\<lparr>preshared_secrets := preshared_secrets this @ [entry]\<rparr>)"

definition add_new_rsa_public_key ::
  "private_configuration_manager_t \<Rightarrow> id_type_t \<Rightarrow> c_string \<Rightarrow> u_int8_t list \<Rightarrow> nat
   \<Rightarrow> private_configuration_manager_t" where
  "add_new_rsa_public_key this type id_string key_pos key_len =
     (let key = take key_len key_pos;
          entry = \<lparr>public_identification = identification_create_from_string type id_string,
                   public_key = key\<rparr>
      in this\<lparr>rsa_public_keys := rsa_public_keys this @ [entry]\<rparr>)"

definition add_new_rsa_private_key ::
  "private_configuration_manager_t \<Rightarrow> id_type_t \<Rightarrow> c_string \<Rightarrow> u_int8_t list \<Rightarrow> nat
   \<Rightarrow> private_configuration_manager_t" where
  "add_new_rsa_private_key this type id_string key_pos key_len =
     (let key = take key_len key_pos;
          entry = \<lparr>private_identification = identification_create_from_string type id_string,
                   private_key = key\<rparr>
      in this\<lparr>rsa_private_keys := rsa_private_keys this @ [entry]\<rparr>)"

subsection \<open>Fetching credentials\<close>

fun shared_secret_scan :: "preshared_secret_entry_t list \<Rightarrow> identification_t \<Rightarrow> error + chunk_t" where
  "shared_secret_scan [] identification' = Inl NOT_FOUND"
| "shared_secret_scan (entry # rest) identification' =
     (if equals (identification entry) identification' then Inr (preshared_secret entry)
      else shared_secret_scan rest identification')"

definition get_shared_secret ::
  "private_configuration_manager_t \<Rightarrow> identification_t
   \<Rightarrow> (error + chunk_t) \<times> private_configuration_manager_t" where
  "get_shared_secret this identification' =
     (shared_secret_scan (preshared_secrets this) identification', this)"

fun rsa_public_key_scan :: "rsa_public_key_entry_t list \<Rightarrow> identification_t \<Rightarrow> error + chunk_t" where
  "rsa_public_key_scan [] identification' = Inl NOT_FOUND"
| "rsa_public_key_scan (entry # rest) identification' =
     (if equals (public_identification entry) identification' then Inr (public_key entry)
      else rsa_public_key_scan rest identification')"

definition get_rsa_public_key ::
  "private_configuration_manager_t \<Rightarrow> identification_t
   \<Rightarrow> (error + chunk_t) \<times> private_configuration_manager_t" where
  "get_rsa_public_key this identification' =
     (rsa_public_key_scan (rsa_public_keys this) identification', this)"

fun rsa_private_key_scan :: "rsa_private_key_entry_t list \<Rightarrow> identification_t \<Rightarrow> error + chunk_t" where
  "rsa_private_key_scan [] identification' = Inl NOT_FOUND"
| "rsa_private_key_scan (entry # rest) identification' =
     (if equals (private_identification entry) identification' then Inr (private_key entry)
      else rsa_private_key_scan rest identification')"

definition get_rsa_private_key ::
  "private_configuration_manager_t \<Rightarrow> identification_t
   \<Rightarrow> (error + chunk_t) \<times> private_configuration_manager_t" where
  "get_rsa_private_key this identification' =
     (rsa_private_key_scan (rsa_private_keys this) identification', this)"

subsection \<open>Construction and teardown\<close>

text \<open>The key material of the default configuration, \<open>256\<close> and \<open>1024\<close> bytes.\<close>

definition public_key_1 :: "u_int8_t list" where
  "public_key_1 =
     [
      0xD4, 0x8D, 0x40, 0x8E, 0xBD, 0xFC, 0x6D, 0xE9, 0xDB, 0x1C, 0xD2, 0x21, 0x19, 0x37, 0x6B, 0xE2,
      0xDC, 0xCE, 0x74, 0xA2, 0x63, 0xF6, 0xD8, 0x8D, 0xAF, 0x1C, 0xC0, 0xFF, 0x07, 0x3F, 0xFB, 0x52,
      0x59, 0x45, 0x01, 0x10, 0x35, 0xA9, 0xB8, 0x16, 0x69, 0x31, 0x19, 0x4F, 0xDD, 0x66, 0xAD, 0xAC,
      0x80, 0x11, 0x33, 0x38, 0x5A, 0x11, 0xF9, 0x33, 0x3F, 0xD2, 0x41, 0x4A, 0x21, 0x9B, 0x54, 0x44,
      0x00, 0xB6, 0x07, 0x33, 0x4A, 0x5B, 0x4E, 0x09, 0x7C, 0x9D, 0xB8, 0xDE, 0x6B, 0xA2, 0xB2, 0x78,
      0x23, 0x3D, 0xF0, 0xB7, 0x37, 0x2B, 0x7A, 0x71, 0x50, 0x6E, 0xEA, 0x93, 0x3E, 0xB5, 0x2C, 0xBD,
      0xD6, 0x08, 0x43, 0x12, 0x0A, 0xE8, 0x8D, 0xE6, 0x6C, 0x24, 0xCC, 0x3F, 0xF7, 0x18, 0x7E, 0x87,
      0x59, 0x0C, 0xA9, 0x5D, 0x85, 0xF8, 0x6E, 0x83, 0xD8, 0x18, 0x77, 0x07, 0xB6, 0x44, 0x3C, 0x8D,
      0x00, 0x00, 0x00, 0x00, 0x00, 0x00, 0x00, 0x00, 0x00, 0x00, 0x00, 0x00, 0x00, 0x00, 0x00, 0x00,
      0x00, 0x00, 0x00, 0x00, 0x00, 0x00, 0x00, 0x00, 0x00, 0x00, 0x00, 0x00, 0x00, 0x00, 0x00, 0x00,
      0x00, 0x00, 0x00, 0x00, 0x00, 0x00, 0x00, 0x00, 0x00, 0x00, 0x00, 0x00, 0x00, 0x00, 0x00, 0x00,
      0x00, 0x00, 0x00, 0x00, 0x00, 0x00, 0x00, 0x00, 0x00, 0x00, 0x00, 0x00, 0x00, 0x00, 0x00, 0x00,
      0x00, 0x00, 0x00, 0x00, 0x00, 0x00, 0x00, 0x00, 0x00, 0x00, 0x00, 0x00, 0x00, 0x00, 0x00, 0x00,
      0x00, 0x00, 0x00, 0x00, 0x00, 0x00, 0x00, 0x00, 0x00, 0x00, 0x00, 0x00, 0x00, 0x00, 0x00, 0x00,
      0x00, 0x00, 0x00, 0x00, 0x00, 0x00, 0x00, 0x00, 0x00, 0x00, 0x00, 0x00, 0x00, 0x00, 0x00, 0x00,
      0x00, 0x00, 0x00, 0x00, 0x00, 0x00, 0x00, 0x00, 0x00, 0x00, 0x00, 0x00, 0x00, 0x01, 0x00, 0x01]"

definition private_key_1 :: "u_int8_t list" where
  "private_key_1 =
     [
      0xD4, 0x8D, 0x40, 0x8E, 0xBD, 0xFC, 0x6D, 0xE9, 0xDB, 0x1C, 0xD2, 0x21, 0x19, 0x37, 0x6B, 0xE2,
      0xDC, 0xCE, 0x74, 0xA2, 0x63, 0xF6, 0xD8, 0x8D, 0xAF, 0x1C, 0xC0, 0xFF, 0x07, 0x3F, 0xFB, 0x52,
      0x59, 0x45, 0x01, 0x10, 0x35, 0xA9, 0xB8, 0x16, 0x69, 0x31, 0x19, 0x4F, 0xDD, 0x66, 0xAD, 0xAC,
      0x80, 0x11, 0x33, 0x38, 0x5A, 0x11, 0xF9, 0x33, 0x3F, 0xD2, 0x41, 0x4A, 0x21, 0x9B, 0x54, 0x44,
      0x00, 0xB6, 0x07, 0x33, 0x4A, 0x5B, 0x4E, 0x09, 0x7C, 0x9D, 0xB8, 0xDE, 0x6B, 0xA2, 0xB2, 0x78,
      0x23, 0x3D, 0xF0, 0xB7, 0x37, 0x2B, 0x7A, 0x71, 0x50, 0x6E, 0xEA, 0x93, 0x3E, 0xB5, 0x2C, 0xBD,
      0xD6, 0x08, 0x43, 0x12, 0x0A, 0xE8, 0x8D, 0xE6, 0x6C, 0x24, 0xCC, 0x3F, 0xF7, 0x18, 0x7E, 0x87,
      0x59, 0x0C, 0xA9, 0x5D, 0x85, 0xF8, 0x6E, 0x83, 0xD8, 0x18, 0x77, 0x07, 0xB6, 0x44, 0x3C, 0x8D,
      0x00, 0x00, 0x00, 0x00, 0x00, 0x00, 0x00, 0x00, 0x00, 0x00, 0x00, 0x00, 0x00, 0x00, 0x00, 0x00,
      0x00, 0x00, 0x00, 0x00, 0x00, 0x00, 0x00, 0x00, 0x00, 0x00, 0x00, 0x00, 0x00, 0x00, 0x00, 0x00,
      0x00, 0x00, 0x00, 0x00, 0x00, 0x00, 0x00, 0x00, 0x00, 0x00, 0x00, 0x00, 0x00, 0x00, 0x00, 0x00,
      0x00, 0x00, 0x00, 0x00, 0x00, 0x00, 0x00, 0x00, 0x00, 0x00, 0x00, 0x00, 0x00, 0x00, 0x00, 0x00,
      0x00, 0x00, 0x00, 0x00, 0x00, 0x00, 0x00, 0x00, 0x00, 0x00, 0x00, 0x00, 0x00, 0x00, 0x00, 0x00,
      0x00, 0x00, 0x00, 0x00, 0x00, 0x00, 0x00, 0x00, 0x00, 0x00, 0x00, 0x00, 0x00, 0x00, 0x00, 0x00,
      0x00, 0x00, 0x00, 0x00, 0x00, 0x00, 0x00, 0x00, 0x00, 0x00, 0x00, 0x00, 0x00, 0x00, 0x00, 0x00,
      0x00, 0x00, 0x00, 0x00, 0x00, 0x00, 0x00, 0x00, 0x00, 0x00, 0x00, 0x00, 0x00, 0x01, 0x00, 0x01,
      0x00, 0x00, 0x00, 0x00, 0x00, 0x00, 0x00, 0x00, 0x00, 0x00, 0x00, 0x00, 0x00, 0x00, 0x00, 0x00,
      0x00, 0x00, 0x00, 0x00, 0x00, 0x00, 0x00, 0x00, 0x00, 0x00, 0x00, 0x00, 0x00, 0x00, 0x00, 0x00,
      0x00, 0x00, 0x00, 0x00, 0x00, 0x00, 0x00, 0x00, 0x00, 0x00, 0x00, 0x00, 0x00, 0x00, 0x00, 0x00,
      0x00, 0x00, 0x00, 0x00, 0x00, 0x00, 0x00, 0x00, 0x00, 0x00, 0x00, 0x00, 0x00, 0x00, 0x00, 0x00,
      0xEE, 0xF2, 0x37, 0xF2, 0x98, 0xEB, 0x33, 0xC6, 0x84, 0xE8, 0xB9, 0xD1, 0x18, 0xB5, 0x29, 0x00,
      0xAC, 0x6B, 0x78, 0xBC, 0x9E, 0xB6, 0x01, 0x21, 0x29, 0xEE, 0x4A, 0x99, 0xFB, 0x3D, 0x07, 0x23,
      0x77, 0x84, 0x93, 0x4B, 0x53, 0x49, 0xB0, 0xA4, 0x6F, 0xB0, 0xF5, 0x50, 0xDB, 0x35, 0xDD, 0xDF,
      0x41, 0x6F, 0x7B, 0xA9, 0x88, 0x3D, 0x0B, 0x1C, 0x2E, 0x2B, 0x44, 0x35, 0x24, 0x72, 0x66, 0xC1,
      0x00, 0x00, 0x00, 0x00, 0x00, 0x00, 0x00, 0x00, 0x00, 0x00, 0x00, 0x00, 0x00, 0x00, 0x00, 0x00,
      0x00, 0x00, 0x00, 0x00, 0x00, 0x00, 0x00, 0x00, 0x00, 0x00, 0x00, 0x00, 0x00, 0x00, 0x00, 0x00,
      0x00, 0x00, 0x00, 0x00, 0x00, 0x00, 0x00, 0x00, 0x00, 0x00, 0x00, 0x00, 0x00, 0x00, 0x00, 0x00,
      0x00, 0x00, 0x00, 0x00, 0x00, 0x00, 0x00, 0x00, 0x00, 0x00, 0x00, 0x00, 0x00, 0x00, 0x00, 0x00,
      0xE3, 0xB8, 0xC8, 0x30, 0x67, 0xD0, 0x5D, 0xF1, 0x32, 0x64, 0xDC, 0x4B, 0xB3, 0x7E, 0xE3, 0x1A,
      0xC5, 0xBC, 0xAC, 0xC9, 0x95, 0x5C, 0x96, 0x0D, 0x5A, 0x52, 0x90, 0xE0, 0x08, 0x3F, 0xA6, 0x71,
      0xC7, 0x18, 0xC5, 0x64, 0xA2, 0xE4, 0xB8, 0x43, 0x5A, 0x8A, 0x7A, 0x9B, 0xDF, 0xDA, 0x81, 0x85,
      0x6C, 0x0F, 0xA4, 0xC9, 0xAC, 0x25, 0x19, 0x54, 0xFE, 0x75, 0xAA, 0x1D, 0x22, 0xB8, 0xF4, 0xCD,
      0x1A, 0x91, 0xC2, 0xA3, 0x65, 0x3F, 0xD7, 0xFC, 0x7E, 0xE1, 0x92, 0x29, 0xC5, 0x85, 0x6E, 0x44,
      0xC8, 0x4D, 0xBD, 0x7A, 0x2C, 0x2D, 0x47, 0xE2, 0x24, 0x24, 0xDF, 0xC2, 0x31, 0x65, 0x8F, 0xD4,
      0xBA, 0x28, 0x7C, 0x4A, 0xCA, 0xAE, 0x79, 0xBE, 0xC1, 0x6C, 0xFC, 0x09, 0x45, 0xF7, 0x87, 0x17,
      0xB4, 0x55, 0x92, 0x15, 0xC5, 0xFA, 0x8F, 0xB0, 0x56, 0x96, 0xC1, 0x87, 0x12, 0xFE, 0xDF, 0xF0,
      0x3A, 0xE1, 0xB1, 0x83, 0x19, 0x74, 0xF0, 0x7D, 0x37, 0x41, 0x3E, 0x6A, 0xFE, 0x33, 0x3E, 0x74,
      0x01, 0x45, 0xE4, 0x65, 0xAE, 0xC9, 0xAE, 0x64, 0xE3, 0xF1, 0x90, 0xFD, 0x1A, 0x30, 0x44, 0x82,
      0xEE, 0x34, 0x94, 0xF2, 0x68, 0x3D, 0x61, 0x90, 0xFB, 0xEB, 0xD8, 0x18, 0xE6, 0x7C, 0xEC, 0x69,
      0x70, 0xD0, 0xEB, 0x2F, 0xC1, 0x3D, 0x9C, 0x6A, 0x4B, 0x89, 0x50, 0x6B, 0x3F, 0xA5, 0x38, 0x41,
      0x00, 0x00, 0x00, 0x00, 0x00, 0x00, 0x00, 0x00, 0x00, 0x00, 0x00, 0x00, 0x00, 0x00, 0x00, 0x00,
      0x00, 0x00, 0x00, 0x00, 0x00, 0x00, 0x00, 0x00, 0x00, 0x00, 0x00, 0x00, 0x00, 0x00, 0x00, 0x00,
      0x00, 0x00, 0x00, 0x00, 0x00, 0x00, 0x00, 0x00, 0x00, 0x00, 0x00, 0x00, 0x00, 0x00, 0x00, 0x00,
      0x00, 0x00, 0x00, 0x00, 0x00, 0x00, 0x00, 0x00, 0x00, 0x00, 0x00, 0x00, 0x00, 0x00, 0x00, 0x00,
      0x65, 0xEE, 0x34, 0x09, 0xAC, 0x4C, 0x21, 0x71, 0x1D, 0x3F, 0x7E, 0x0D, 0x01, 0xC2, 0x3E, 0x34,
      0x88, 0x58, 0xEC, 0x4F, 0x62, 0x50, 0xF7, 0xD8, 0x62, 0xDF, 0xC1, 0x39, 0x40, 0xA0, 0xBF, 0x0B,
      0xD5, 0x2F, 0x5B, 0xFA, 0x35, 0x14, 0x69, 0x63, 0x2C, 0x36, 0x4B, 0xDF, 0xEB, 0x33, 0x66, 0x6B,
      0x97, 0xA9, 0x6C, 0x12, 0x5D, 0x08, 0xD5, 0x55, 0x77, 0x28, 0x83, 0xD7, 0x3B, 0xAE, 0x05, 0xC1,
      0x00, 0x00, 0x00, 0x00, 0x00, 0x00, 0x00, 0x00, 0x00, 0x00, 0x00, 0x00, 0x00, 0x00, 0x00, 0x00,
      0x00, 0x00, 0x00, 0x00, 0x00, 0x00, 0x00, 0x00, 0x00, 0x00, 0x00, 0x00, 0x00, 0x00, 0x00, 0x00,
      0x00, 0x00, 0x00, 0x00, 0x00, 0x00, 0x00, 0x00, 0x00, 0x00, 0x00, 0x00, 0x00, 0x00, 0x00, 0x00,
      0x00, 0x00, 0x00, 0x00, 0x00, 0x00, 0x00, 0x00, 0x00, 0x00, 0x00, 0x00, 0x00, 0x00, 0x00, 0x00,
      0x9F, 0x96, 0x17, 0x75, 0x14, 0xCB, 0xC9, 0x8A, 0x06, 0xAE, 0xF8, 0x53, 0x74, 0xEF, 0x2F, 0x68,
      0xCB, 0xBA, 0x75, 0xBC, 0xAF, 0x97, 0xBA, 0xF0, 0x90, 0xA3, 0xDC, 0x33, 0xA4, 0x94, 0x36, 0xA8,
      0xF5, 0xC6, 0x3E, 0x4F, 0x50, 0x78, 0xC9, 0x49, 0x2A, 0x62, 0x71, 0x9A, 0x5B, 0x3E, 0x5E, 0x16,
      0x8A, 0xAC, 0x4B, 0xE7, 0xA9, 0x64, 0x36, 0x64, 0x82, 0x0F, 0x23, 0xB0, 0x57, 0x6D, 0x16, 0xE1,
      0x00, 0x00, 0x00, 0x00, 0x00, 0x00, 0x00, 0x00, 0x00, 0x00, 0x00, 0x00, 0x00, 0x00, 0x00, 0x00,
      0x00, 0x00, 0x00, 0x00, 0x00, 0x00, 0x00, 0x00, 0x00, 0x00, 0x00, 0x00, 0x00, 0x00, 0x00, 0x00,
      0x00, 0x00, 0x00, 0x00, 0x00, 0x00, 0x00, 0x00, 0x00, 0x00, 0x00, 0x00, 0x00, 0x00, 0x00, 0x00,
      0x00, 0x00, 0x00, 0x00, 0x00, 0x00, 0x00, 0x00, 0x00, 0x00, 0x00, 0x00, 0x00, 0x00, 0x00, 0x00,
      0x25, 0xF1, 0x40, 0x05, 0x58, 0x19, 0x37, 0x61, 0x34, 0x98, 0xBB, 0x29, 0x1B, 0x44, 0x08, 0x1A,
      0xD3, 0x66, 0x62, 0x4C, 0x9C, 0x47, 0xD2, 0x91, 0x60, 0x46, 0x6F, 0x8E, 0xA6, 0xE7, 0x80, 0x7B,
      0x17, 0x77, 0x9A, 0xB5, 0x18, 0x8A, 0x15, 0x8F, 0x77, 0xA1, 0x55, 0x3E, 0x96, 0x66, 0x86, 0x57,
      0x75, 0x73, 0xF5, 0x57, 0x50, 0x28, 0xEA, 0x83, 0x14, 0xB1, 0x55, 0xA3, 0x82, 0xCD, 0x36, 0xF8]"

text \<open>
  \<^verbatim>\<open>load_default_config\<close> creates one initiation policy and one session policy, at the
  addresses \<open>init_config'\<close> and \<open>sa_config'\<close> that the allocator returns for them, registers
  them as \<^verbatim>\<open>"localhost"\<close> and adds one RSA key pair. It changes the store and the manager.
\<close>

definition load_default_config ::
  "init_config_ptr \<Rightarrow> sa_config_ptr \<Rightarrow> store \<Rightarrow> private_configuration_manager_t
   \<Rightarrow> private_configuration_manager_t \<times> store" where
  "load_default_config init_config' sa_config' st this =
     (let st1 = init_config_create init_config' (literal ''0.0.0.0'') (literal ''127.0.0.1'')
                  IKEV2_UDP_PORT IKEV2_UDP_PORT st;
          ts = traffic_selector_create_from_string 1 TS_IPV4_ADDR_RANGE
                  (literal ''0.0.0.0'') 0 (literal ''255.255.255.255'') 65535;
          proposals = \<lparr>encryption_algorithm = ENCR_AES_CBC,
                        encryption_algorithm_key_length = 16,
                        integrity_algorithm = AUTH_HMAC_MD5_96,
                        integrity_algorithm_key_length = 16,
                        pseudo_random_function = PRF_HMAC_MD5,
                        pseudo_random_function_key_length = 16,
                        diffie_hellman_group = MODP_1024_BIT\<rparr>;
          st2 = init_config_add_proposal init_config' 1 proposals st1;
          st3 = sa_config_create sa_config' ID_IPV4_ADDR (literal ''127.0.0.1'')
                  ID_IPV4_ADDR (literal ''127.0.0.1'') RSA_DIGITAL_SIGNATURE 30000 st2;
          st4 = add_traffic_selector_initiator sa_config' ts st3;
          st5 = add_traffic_selector_responder sa_config' ts st4;
          child_proposal1 = child_proposal_create 1;
          child_proposal2 = add_algorithm child_proposal1 ESP ENCRYPTION_ALGORITHM (Encryption ENCR_AES_CBC) 16;
          child_proposal3 = add_algorithm child_proposal2 ESP INTEGRITY_ALGORITHM (Integrity AUTH_HMAC_SHA1_96) 20;
          child_proposal4 = add_algorithm child_proposal3 ESP DIFFIE_HELLMAN_GROUP (Group MODP_1024_BIT) 0;
          child_proposal5 = add_algorithm child_proposal4 ESP EXTENDED_SEQUENCE_NUMBERS
                  (Sequence_numbers NO_EXT_SEQ_NUMBERS) 0;
          st6 = sa_config_add_proposal sa_config' child_proposal5 st5;
          this1 = add_new_configuration this (literal ''localhost'') init_config' sa_config';
          this2 = add_new_rsa_public_key this1 ID_IPV4_ADDR (literal ''127.0.0.1'') public_key_1 256;
          this3 = add_new_rsa_private_key this2 ID_IPV4_ADDR (literal ''127.0.0.1'') private_key_1 1024
      in (this3, st6))"

text \<open>
  \<^verbatim>\<open>configuration_manager_create\<close> sets the private variables, six empty lists and the
  three timing values, and loads the default configuration. The store it runs in and the
  two addresses the allocator returns during the load are arguments.
\<close>

definition configuration_manager_create ::
  "u_int32_t \<Rightarrow> u_int32_t \<Rightarrow> u_int32_t \<Rightarrow> init_config_ptr \<Rightarrow> sa_config_ptr \<Rightarrow> store
   \<Rightarrow> private_configuration_manager_t \<times> store" where
  "configuration_manager_create first_retransmit_timeout' max_retransmit_count' half_open_ike_sa_timeout'
       init_config' sa_config' st =
     load_default_config init_config' sa_config' st
       \<lparr>configurations = [], init_configs = [], sa_configs = [], preshared_secrets = [],
        rsa_private_keys = [], rsa_public_keys = [],
        max_retransmit_count = max_retransmit_count',
        first_retransmit_timeout = first_retransmit_timeout',
        half_open_ike_sa_timeout = half_open_ike_sa_timeout'\<rparr>"

text \<open>
  \<^verbatim>\<open>destroy\<close> frees the manager, so what it leaves is the sequence of the destructor
  calls it makes, one loop after the other.
\<close>

datatype destroy_call =
    Entry_destroy configuration_entry_t
  | Sa_config_destroy sa_config_ptr
  | Init_config_destroy init_config_ptr
  | Preshared_secret_free preshared_secret_entry_t
  | Rsa_private_key_destroy rsa_private_key_entry_t
  | Rsa_public_key_destroy rsa_public_key_entry_t

text \<open>\<^verbatim>\<open>while (list->get_count (list) > 0) { list->remove_first (list, &x); destroy x }\<close>\<close>

fun remove_all :: "('a \<Rightarrow> destroy_call) \<Rightarrow> 'a list \<Rightarrow> destroy_call list" where
  "remove_all destroy_one [] = []"
| "remove_all destroy_one (x # rest) = destroy_one x # remove_all destroy_one rest"

definition destroy :: "private_configuration_manager_t \<Rightarrow> destroy_call list" where
  "destroy this =
     remove_all Entry_destroy (configurations this)
     @ remove_all Sa_config_destroy (sa_configs this)
     @ remove_all Init_config_destroy (init_configs this)
     @ remove_all Preshared_secret_free (preshared_secrets this)
     @ remove_all Rsa_private_key_destroy (rsa_private_keys this)
     @ remove_all Rsa_public_key_destroy (rsa_public_keys this)"

subsection \<open>The match of the host pair, in the words of the specification\<close>

definition spec_host_match :: "store \<Rightarrow> host_t \<Rightarrow> host_t \<Rightarrow> configuration_entry_t \<Rightarrow> bool" where
  "spec_host_match st my_host other_host entry =
     (let cfg_local = get_my_host (init_config_at st (init_config entry));
          cfg_remote = get_other_host (init_config_at st (init_config entry))
      in (ip_is_equal cfg_remote other_host
            \<and> (is_default_route cfg_local \<or> ip_is_equal cfg_local my_host))
         \<or> (is_default_route cfg_remote
            \<and> (is_default_route cfg_local \<or> ip_is_equal cfg_local my_host)))"

subsection \<open>A sequence of registrations\<close>

fun add_new_configurations ::
  "private_configuration_manager_t \<Rightarrow> (c_string \<times> init_config_ptr \<times> sa_config_ptr) list
   \<Rightarrow> private_configuration_manager_t" where
  "add_new_configurations this [] = this"
| "add_new_configurations this ((name', init_config', sa_config') # rest) =
     add_new_configurations (add_new_configuration this name' init_config' sa_config') rest"

subsection \<open>A store and entries to run the methods on\<close>

definition example_host :: "32 word \<Rightarrow> bool \<Rightarrow> host_t" where
  "example_host a d = \<lparr>address = a, port = 500, default_route = d\<rparr>"

definition example_id :: "u_int8_t list \<Rightarrow> identification_t" where
  "example_id v = \<lparr>id_type = ID_IPV4_ADDR, encoded = v\<rparr>"

text \<open>
  Initiation policies: at \<open>1\<close> remote 1.2.3.0 and a default-route local host, at \<open>3\<close>
  remote 1.2.3.0 that is marked default-route too and the local host 10.0.0.1, elsewhere
  default-route hosts on both sides. Session policies: at \<open>1\<close> local 10.0.0.2 and
  remote 10.0.0.9, elsewhere local 10.0.0.1 and remote 10.0.0.9.
\<close>

definition example_init_config :: "host_t \<Rightarrow> host_t \<Rightarrow> init_config_t" where
  "example_init_config my other = \<lparr>get_my_host = my, get_other_host = other, ike_proposals = []\<rparr>"

definition example_sa_config :: "identification_t \<Rightarrow> identification_t \<Rightarrow> sa_config_t" where
  "example_sa_config my other =
     \<lparr>get_my_id = my, get_other_id = other, auth_method = RSA_DIGITAL_SIGNATURE,
      ike_sa_lifetime = 30000, traffic_selectors_initiator = [],
      traffic_selectors_responder = [], child_proposals = []\<rparr>"

definition example_store :: store where
  "example_store =
     \<lparr>init_config_at = (\<lambda>p.
        if p = 1 then example_init_config (example_host 0 True) (example_host 0x01020300 False)
        else if p = 3 then example_init_config (example_host 0x0A000001 False) (example_host 0x01020300 True)
        else example_init_config (example_host 0 True) (example_host 0 True)),
      sa_config_at = (\<lambda>p.
        if p = 1 then example_sa_config (example_id [10, 0, 0, 2]) (example_id [10, 0, 0, 9])
        else example_sa_config (example_id [10, 0, 0, 1]) (example_id [10, 0, 0, 9]))\<rparr>"

definition example_entry :: "nat \<Rightarrow> nat \<Rightarrow> configuration_entry_t" where
  "example_entry i s = \<lparr>name = [0x61, 0], init_config = i, sa_config = s\<rparr>"

text \<open>A state with the given entries, no credentials and the timing values 500, 3, 30000.\<close>

definition example_manager :: "configuration_entry_t list \<Rightarrow> private_configuration_manager_t" where
  "example_manager entries =
     \<lparr>configurations = entries, init_configs = [], sa_configs = [], preshared_secrets = [],
      rsa_private_keys = [], rsa_public_keys = [],
      max_retransmit_count = 3, first_retransmit_timeout = 500,
      half_open_ike_sa_timeout = 30000\<rparr>"

text \<open>
  The manager as the constructor returns it for the timing values 500, 3, 30000 (with
  \<open>0\<close> for the maximum: \<open>example_created_unlimited\<close>), with the default policies at the
  addresses \<open>100\<close> and \<open>200\<close>.
\<close>

definition example_created :: private_configuration_manager_t where
  "example_created = fst (configuration_manager_create 500 3 30000 100 200 example_store)"

definition example_created_unlimited :: private_configuration_manager_t where
  "example_created_unlimited = fst (configuration_manager_create 500 0 30000 100 200 example_store)"

subsection \<open>Ownership of the policy objects\<close>

text \<open>
  Each ownership list holds an address at most once, and holds exactly the addresses the
  entries refer to.
\<close>

definition owned_once :: "private_configuration_manager_t \<Rightarrow> bool" where
  "owned_once this \<longleftrightarrow>
     distinct (init_configs this) \<and> distinct (sa_configs this)
     \<and> set (init_configs this) = init_config ` set (configurations this)
     \<and> set (sa_configs this) = sa_config ` set (configurations this)"

section \<open>Properties\<close>

subsection \<open>Loops and library functions in closed form\<close>

lemma retransmit_loop_doubles:
  "i \<le> retransmit_count \<Longrightarrow>
   retransmit_loop i retransmit_count new_timeout = new_timeout * 2 ^ (unat retransmit_count - unat i)"
proof (induction i retransmit_count new_timeout rule: retransmit_loop.induct)
  case (1 i retransmit_count new_timeout)
  show ?case
  proof (cases "i < retransmit_count")
    case True
    have "unat retransmit_count < 2 ^ 32"
      using unsigned_less [of retransmit_count, where 'a = nat] by simp
    moreover from True have below: "unat i < unat retransmit_count"
      by (simp add: word_less_nat_alt)
    ultimately have "unat i + 1 < 2 ^ 32"
      by simp
    then have suc: "unat (i + 1) = Suc (unat i)"
      by (simp add: unat_word_ariths)
    with below have "i + 1 \<le> retransmit_count"
      by (simp add: word_le_nat_alt)
    with True "1.IH" have "retransmit_loop (i + 1) retransmit_count (new_timeout * 2)
        = new_timeout * 2 * 2 ^ (unat retransmit_count - unat (i + 1))"
      by simp
    moreover from below suc have "unat retransmit_count - unat i = Suc (unat retransmit_count - unat (i + 1))"
      by simp
    ultimately show ?thesis
      using True by (simp add: retransmit_loop.simps [of i])
  next
    case False
    with "1.prems" have "i = retransmit_count"
      by simp
    moreover from False have "retransmit_loop i retransmit_count new_timeout = new_timeout"
      by (subst retransmit_loop.simps) simp
    ultimately show ?thesis
      by simp
  qed
qed

lemma strlen_c_str: "strlen s = length (c_str s)"
  by (induction s) (simp_all add: c_str_def)

lemma take_strlen: "take (strlen s) s = c_str s"
  by (induction s) (simp_all add: c_str_def)

lemma c_str_strcpy: "c_str (strcpy s) = c_str s"
  by (induction s) (simp_all add: c_str_def strcpy_def)

lemma strcmp_zero_iff: "strcmp a b = 0 \<longleftrightarrow> c_str a = c_str b"
proof (induction a b rule: strcmp.induct)
  case 1
  show ?case by simp
next
  case (2 b bs)
  show ?case by (simp add: c_str_def uint_0_iff)
next
  case (3 a as)
  show ?case by (simp add: c_str_def uint_0_iff)
next
  case (4 a as b bs)
  have "uint a - uint b = 0 \<longleftrightarrow> a = b"
    by (simp add: word_uint_eq_iff)
  with 4 show ?case by (auto simp: c_str_def)
qed

lemma found_scan_iff: "found_scan configs config \<longleftrightarrow> config \<in> set configs"
  by (induction configs) auto

lemma remove_all_map: "remove_all destroy_one xs = map destroy_one xs"
  by (induction xs) simp_all

lemma init_config_for_host_scan_find:
  "init_config_for_host_scan st entries my_host other_host =
     (case find (spec_host_match st my_host other_host) entries of
        None \<Rightarrow> Inl NOT_FOUND
      | Some entry \<Rightarrow> Inr (init_config entry))"
  by (induction entries) (simp_all add: spec_host_match_def Let_def)

lemma sa_config_scan_find_None:
  "sa_config_for_init_config_and_id_scan st entries init_config' other_id None =
     (case find (\<lambda>entry. init_config entry = init_config'
                   \<and> equals (get_other_id (sa_config_at st (sa_config entry))) other_id) entries of
        None \<Rightarrow> Inl NOT_FOUND
      | Some entry \<Rightarrow> Inr (sa_config entry))"
  by (induction entries) (simp_all add: Let_def)

lemma sa_config_scan_find_Some:
  "sa_config_for_init_config_and_id_scan st entries init_config' other_id (Some my_id) =
     (case find (\<lambda>entry. init_config entry = init_config'
                   \<and> equals (get_other_id (sa_config_at st (sa_config entry))) other_id
                   \<and> equals (get_my_id (sa_config_at st (sa_config entry))) my_id) entries of
        None \<Rightarrow> Inl NOT_FOUND
      | Some entry \<Rightarrow> Inr (sa_config entry))"
  by (induction entries) (simp_all add: Let_def)

lemma init_configs_add_new_configuration:
  "init_configs (add_new_configuration this name' init_config' sa_config') =
     (if init_config' \<in> set (init_configs this) then init_configs this
      else init_config' # init_configs this)"
  by (simp add: add_new_configuration_def Let_def found_scan_iff)

lemma sa_configs_add_new_configuration:
  "sa_configs (add_new_configuration this name' init_config' sa_config') =
     (if sa_config' \<in> set (sa_configs this) then sa_configs this
      else sa_config' # sa_configs this)"
  by (simp add: add_new_configuration_def Let_def found_scan_iff)

lemma configurations_add_new_configuration:
  "configurations (add_new_configuration this name' init_config' sa_config') =
     configurations this @ [configuration_entry_create name' init_config' sa_config']"
  by (simp add: add_new_configuration_def Let_def)

lemma owned_once_add_new_configuration:
  "owned_once this \<Longrightarrow> owned_once (add_new_configuration this name' init_config' sa_config')"
  unfolding owned_once_def
  by (auto simp: init_configs_add_new_configuration sa_configs_add_new_configuration
      configurations_add_new_configuration configuration_entry_create_def)

lemma owned_once_add_new_configurations:
  "owned_once this \<Longrightarrow> owned_once (add_new_configurations this regs)"
  by (induction this regs rule: add_new_configurations.induct)
    (simp_all add: owned_once_add_new_configuration)

lemma configurations_create:
  "configurations (fst (configuration_manager_create first_timeout max_count half_open_timeout
       init_config' sa_config' st))
     = [configuration_entry_create (literal ''localhost'') init_config' sa_config']
   \<and> init_configs (fst (configuration_manager_create first_timeout max_count half_open_timeout
       init_config' sa_config' st)) = [init_config']
   \<and> sa_configs (fst (configuration_manager_create first_timeout max_count half_open_timeout
       init_config' sa_config' st)) = [sa_config']
   \<and> preshared_secrets (fst (configuration_manager_create first_timeout max_count half_open_timeout
       init_config' sa_config' st)) = []"
  by (simp add: configuration_manager_create_def load_default_config_def Let_def
      add_new_configuration_def add_new_rsa_public_key_def add_new_rsa_private_key_def)

lemma timing_create:
  "max_retransmit_count (fst (configuration_manager_create first_timeout max_count half_open_timeout
       init_config' sa_config' st)) = max_count
   \<and> first_retransmit_timeout (fst (configuration_manager_create first_timeout max_count
       half_open_timeout init_config' sa_config' st)) = first_timeout
   \<and> half_open_ike_sa_timeout (fst (configuration_manager_create first_timeout max_count
       half_open_timeout init_config' sa_config' st)) = half_open_timeout"
  by (simp add: configuration_manager_create_def load_default_config_def Let_def
      add_new_configuration_def add_new_rsa_public_key_def add_new_rsa_private_key_def)

lemma owned_once_create:
  "owned_once (fst (configuration_manager_create first_timeout max_count half_open_timeout
     init_config' sa_config' st))"
  by (simp add: owned_once_def configurations_create configuration_entry_create_def)

lemma init_config_for_host_scan_calls_result:
  "fst (init_config_for_host_scan_calls st entries my_host other_host)
     = init_config_for_host_scan st entries my_host other_host"
  by (induction entries) (simp_all add: Let_def)

lemma configurations_add_new_configurations:
  "map (\<lambda>entry. (init_config entry, sa_config entry)) (configurations (add_new_configurations this regs))
     = map (\<lambda>entry. (init_config entry, sa_config entry)) (configurations this) @ map snd regs"
  by (induction this regs rule: add_new_configurations.induct)
    (simp_all add: configurations_add_new_configuration configuration_entry_create_def)

lemma count_list_distinct: "distinct xs \<Longrightarrow> x \<in> set xs \<Longrightarrow> count_list xs x = 1"
  by (induction xs) auto

lemma count_list_destroy_init_config:
  "count_list (destroy this) (Init_config_destroy p) = count_list (init_configs this) p"
proof -
  have other: "count_list (map f xs) (Init_config_destroy p) = 0"
    if "\<And>x. f x \<noteq> Init_config_destroy p" for f :: "'a \<Rightarrow> destroy_call" and xs
    using that by (induction xs) simp_all
  have own: "count_list (map Init_config_destroy xs) (Init_config_destroy p) = count_list xs p" for xs
    by (induction xs) simp_all
  show ?thesis
    by (simp add: destroy_def remove_all_map other own)
qed

lemma count_list_destroy_sa_config:
  "count_list (destroy this) (Sa_config_destroy p) = count_list (sa_configs this) p"
proof -
  have other: "count_list (map f xs) (Sa_config_destroy p) = 0"
    if "\<And>x. f x \<noteq> Sa_config_destroy p" for f :: "'a \<Rightarrow> destroy_call" and xs
    using that by (induction xs) simp_all
  have own: "count_list (map Sa_config_destroy xs) (Sa_config_destroy p) = count_list xs p" for xs
    by (induction xs) simp_all
  show ?thesis
    by (simp add: destroy_def remove_all_map other own)
qed

lemma shared_secret_scan_find:
  "shared_secret_scan entries identification' =
     (case find (\<lambda>entry. equals (identification entry) identification') entries of
        None \<Rightarrow> Inl NOT_FOUND
      | Some entry \<Rightarrow> Inr (preshared_secret entry))"
  by (induction entries) simp_all

lemma shared_secret_scan_append:
  "shared_secret_scan (entries @ later) identification' =
     (case shared_secret_scan entries identification' of
        Inl e \<Rightarrow> shared_secret_scan later identification'
      | Inr secret \<Rightarrow> Inr secret)"
  by (induction entries) simp_all

lemma shared_secret_scan_none:
  "\<forall>entry \<in> set entries. \<not> equals (identification entry) identification' \<Longrightarrow>
   shared_secret_scan entries identification' = Inl NOT_FOUND"
  by (induction entries) simp_all

lemma shared_secret_scan_stored:
  "entry \<in> set entries \<Longrightarrow>
   \<exists>first \<in> set entries. equals (identification first) (identification entry)
     \<and> shared_secret_scan entries (identification entry) = Inr (preshared_secret first)"
  by (induction entries) (auto simp: equals_def)

lemma memcpy_c_string: "0 \<in> set s \<Longrightarrow> memcpy s (Suc (strlen s)) = c_str s @ [0]"
  by (induction s) (auto simp: memcpy_def c_str_def)

lemma init_config_for_name_scan_find:
  "init_config_for_name_scan entries name' =
     (case find (\<lambda>entry. c_str (name entry) = c_str name') entries of
        None \<Rightarrow> Inl NOT_FOUND
      | Some entry \<Rightarrow> Inr (init_config entry))"
  by (induction entries) (simp_all add: strcmp_zero_iff)

lemma sa_config_for_name_scan_find:
  "sa_config_for_name_scan entries name' =
     (case find (\<lambda>entry. c_str (name entry) = c_str name') entries of
        None \<Rightarrow> Inl NOT_FOUND
      | Some entry \<Rightarrow> Inr (sa_config entry))"
  by (induction entries) (simp_all add: strcmp_zero_iff)

subsection \<open>Resolution by host pair\<close>

text \<open>
  C1. \<^verbatim>\<open>get_init_config_for_host\<close> returns the \<^verbatim>\<open>init_config\<close> of the first entry, in the
  order of registration, that matches the host pair in the words of the specification,
  and \<^verbatim>\<open>NOT_FOUND\<close> when no entry matches; a registration appends its entry. For the
  entries (remote 1.2.3.0, local default-route) and (remote default-route, local
  default-route) and the query local 9.9.9.9, remote 1.2.3.0 the first entry is returned.
\<close>

theorem get_init_config_for_host_first_match:
  "fst (get_init_config_for_host st this my_host other_host) =
     (case find (spec_host_match st my_host other_host) (configurations this) of
        None \<Rightarrow> Inl NOT_FOUND
      | Some entry \<Rightarrow> Inr (init_config entry))
   \<and> configurations (add_new_configuration this name' init_config' sa_config')
       = configurations this @ [configuration_entry_create name' init_config' sa_config']
   \<and> fst (get_init_config_for_host example_store
        (example_manager [example_entry 1 1, example_entry 2 2])
        (example_host 0x09090909 False) (example_host 0x01020300 False)) = Inr 1"
proof -
  have "init_config_for_host_scan example_store [example_entry 1 1, example_entry 2 2]
      (example_host 0x09090909 False) (example_host 0x01020300 False) = Inr 1"
    by (simp add: example_store_def example_init_config_def example_entry_def example_host_def ip_is_equal_def
        is_default_route_def)
  then show ?thesis
    by (simp add: get_init_config_for_host_def init_config_for_host_scan_find
        add_new_configuration_def Let_def example_manager_def)
qed

theorem get_init_config_for_host_first_match_witness:
  "fst (get_init_config_for_host example_store
        (example_manager [example_entry 3 1, example_entry 2 2, example_entry 1 1])
        (example_host 0x09090909 False) (example_host 0x01020300 False)) = Inr 2
   \<and> fst (get_init_config_for_host example_store
        (example_manager [example_entry 3 1])
        (example_host 0x09090909 False) (example_host 0x01020300 False)) = Inl NOT_FOUND"
  using get_init_config_for_host_first_match [of example_store
      "example_manager [example_entry 3 1, example_entry 2 2, example_entry 1 1]"
      "example_host 0x09090909 False" "example_host 0x01020300 False"]
    get_init_config_for_host_first_match [of example_store
      "example_manager [example_entry 3 1]"
      "example_host 0x09090909 False" "example_host 0x01020300 False"]
  by (simp add: example_manager_def example_store_def example_init_config_def
      example_entry_def example_host_def
      spec_host_match_def ip_is_equal_def is_default_route_def)

subsection \<open>Resolution of the session policy\<close>

text \<open>
  C2. With \<open>my_id\<close> \<^verbatim>\<open>NULL\<close>, \<^verbatim>\<open>get_sa_config_for_init_config_and_id\<close> returns the
  \<^verbatim>\<open>sa_config\<close> of the first entry, in the order of registration, whose \<^verbatim>\<open>init_config\<close> is
  the given address and whose remote identification equals the given one, whatever the
  local identifications of the entries are; the other entries are skipped.
\<close>

theorem get_sa_config_unspecified_my_id_first_match:
  "fst (get_sa_config_for_init_config_and_id st this init_config' other_id None) =
     (case find (\<lambda>entry. init_config entry = init_config'
                   \<and> equals (get_other_id (sa_config_at st (sa_config entry))) other_id)
             (configurations this) of
        None \<Rightarrow> Inl NOT_FOUND
      | Some entry \<Rightarrow> Inr (sa_config entry))"
  by (simp add: get_sa_config_for_init_config_and_id_def sa_config_scan_find_None)

theorem get_sa_config_unspecified_my_id_first_match_witness:
  "fst (get_sa_config_for_init_config_and_id example_store
        (example_manager [example_entry 2 2, example_entry 1 2, example_entry 1 1, example_entry 1 3])
        1 (example_id [10, 0, 0, 9]) None) = Inr 2
   \<and> fst (get_sa_config_for_init_config_and_id example_store
        (example_manager [example_entry 1 1, example_entry 1 2])
        1 (example_id [10, 0, 0, 9]) None) = Inr 1
   \<and> fst (get_sa_config_for_init_config_and_id example_store
        (example_manager [example_entry 1 1, example_entry 1 2])
        1 (example_id [10, 0, 0, 9]) (Some (example_id [10, 0, 0, 1]))) = Inr 2
   \<and> fst (get_sa_config_for_init_config_and_id example_store
        (example_manager [example_entry 1 1, example_entry 1 2])
        1 (example_id [10, 0, 0, 8]) None) = Inl NOT_FOUND"
  using get_sa_config_unspecified_my_id_first_match [of example_store
      "example_manager [example_entry 2 2, example_entry 1 2, example_entry 1 1, example_entry 1 3]"
      1 "example_id [10, 0, 0, 9]"]
    get_sa_config_unspecified_my_id_first_match [of example_store
      "example_manager [example_entry 1 1, example_entry 1 2]" 1 "example_id [10, 0, 0, 9]"]
    get_sa_config_unspecified_my_id_first_match [of example_store
      "example_manager [example_entry 1 1, example_entry 1 2]" 1 "example_id [10, 0, 0, 8]"]
  by (simp add: example_manager_def example_store_def example_sa_config_def example_entry_def example_id_def
      equals_def get_sa_config_for_init_config_and_id_def)

text \<open>
  C3. With a \<open>my_id\<close>, \<^verbatim>\<open>get_sa_config_for_init_config_and_id\<close> returns \<^verbatim>\<open>NOT_FOUND\<close>
  when no entry has the given \<^verbatim>\<open>init_config\<close> address, an equal remote identification and
  an equal local identification; an entry whose local identification differs is skipped
  and the scan goes on with the entries after it.
\<close>

theorem get_sa_config_specified_my_id_not_found:
  "((\<forall>entry \<in> set (configurations this).
        \<not> (init_config entry = init_config'
           \<and> equals (get_other_id (sa_config_at st (sa_config entry))) other_id
           \<and> equals (get_my_id (sa_config_at st (sa_config entry))) my_id))
     \<longrightarrow> fst (get_sa_config_for_init_config_and_id st this init_config' other_id (Some my_id))
          = Inl NOT_FOUND)
   \<and> (\<not> equals (get_my_id (sa_config_at st (sa_config entry))) my_id
     \<longrightarrow> fst (get_sa_config_for_init_config_and_id st
               (this\<lparr>configurations := entry # rest\<rparr>) init_config' other_id (Some my_id))
          = fst (get_sa_config_for_init_config_and_id st
               (this\<lparr>configurations := rest\<rparr>) init_config' other_id (Some my_id)))"
proof -
  have "find (\<lambda>entry. init_config entry = init_config'
                   \<and> equals (get_other_id (sa_config_at st (sa_config entry))) other_id
                   \<and> equals (get_my_id (sa_config_at st (sa_config entry))) my_id)
          (configurations this) = None"
    if "\<forall>entry \<in> set (configurations this).
        \<not> (init_config entry = init_config'
           \<and> equals (get_other_id (sa_config_at st (sa_config entry))) other_id
           \<and> equals (get_my_id (sa_config_at st (sa_config entry))) my_id)"
    using that by (simp add: find_None_iff)
  then show ?thesis
    by (simp add: get_sa_config_for_init_config_and_id_def sa_config_scan_find_Some)
qed

theorem get_sa_config_specified_my_id_not_found_witness:
  "fst (get_sa_config_for_init_config_and_id example_store
        (example_manager [example_entry 1 1, example_entry 1 2])
        1 (example_id [10, 0, 0, 9]) (Some (example_id [10, 0, 0, 3]))) = Inl NOT_FOUND
   \<and> fst (get_sa_config_for_init_config_and_id example_store
        (example_manager [example_entry 1 1, example_entry 1 2])
        1 (example_id [10, 0, 0, 9]) None) = Inr 1
   \<and> fst (get_sa_config_for_init_config_and_id example_store
        (example_manager [example_entry 1 1, example_entry 1 2])
        1 (example_id [10, 0, 0, 9]) (Some (example_id [10, 0, 0, 1])))
      = fst (get_sa_config_for_init_config_and_id example_store
        (example_manager [example_entry 1 2])
        1 (example_id [10, 0, 0, 9]) (Some (example_id [10, 0, 0, 1])))
   \<and> fst (get_sa_config_for_init_config_and_id example_store
        (example_manager [example_entry 1 2])
        1 (example_id [10, 0, 0, 9]) (Some (example_id [10, 0, 0, 1]))) = Inr 2"
  using get_sa_config_specified_my_id_not_found [where st = example_store
      and ?this = "example_manager [example_entry 1 1, example_entry 1 2]"
      and init_config' = 1 and other_id = "example_id [10, 0, 0, 9]"
      and my_id = "example_id [10, 0, 0, 3]" and entry = "example_entry 1 1"
      and rest = "[example_entry 1 2]"]
    get_sa_config_specified_my_id_not_found [where st = example_store
      and ?this = "example_manager [example_entry 1 1, example_entry 1 2]"
      and init_config' = 1 and other_id = "example_id [10, 0, 0, 9]"
      and my_id = "example_id [10, 0, 0, 1]" and entry = "example_entry 1 1"
      and rest = "[example_entry 1 2]"]
  by (simp add: example_manager_def example_store_def example_sa_config_def example_entry_def example_id_def
      equals_def get_sa_config_for_init_config_and_id_def)

subsection \<open>Ownership and teardown\<close>

text \<open>
  C4. \<^verbatim>\<open>add_new_configuration\<close> puts an address into \<^verbatim>\<open>init_configs\<close>, respectively
  \<^verbatim>\<open>sa_configs\<close>, only if the list does not hold it yet. After any sequence of
  registrations on a manager as \<^verbatim>\<open>configuration_manager_create\<close> returns it, the entries
  are the default entry and the registered ones, in order, and the addresses of every
  entry occur once in their ownership list and once among the destructor calls of
  \<^verbatim>\<open>destroy\<close>.
\<close>

theorem add_new_configuration_owns_once:
  "init_configs (add_new_configuration this name' init_config' sa_config') =
     (if init_config' \<in> set (init_configs this) then init_configs this
      else init_config' # init_configs this)
   \<and> sa_configs (add_new_configuration this name' init_config' sa_config') =
     (if sa_config' \<in> set (sa_configs this) then sa_configs this
      else sa_config' # sa_configs this)
   \<and> (let registry = add_new_configurations
            (fst (configuration_manager_create first_timeout max_count half_open_timeout
               default_init_config default_sa_config st)) regs
      in map (\<lambda>entry. (init_config entry, sa_config entry)) (configurations registry)
           = (default_init_config, default_sa_config) # map snd regs
         \<and> (\<forall>entry \<in> set (configurations registry).
              count_list (init_configs registry) (init_config entry) = 1
              \<and> count_list (sa_configs registry) (sa_config entry) = 1
              \<and> count_list (destroy registry) (Init_config_destroy (init_config entry)) = 1
              \<and> count_list (destroy registry) (Sa_config_destroy (sa_config entry)) = 1))"
proof -
  define created where "created = fst (configuration_manager_create first_timeout max_count
      half_open_timeout default_init_config default_sa_config st)"
  define registry where "registry = add_new_configurations created regs"
  have "owned_once registry"
    unfolding registry_def created_def
    by (rule owned_once_add_new_configurations) (rule owned_once_create)
  then have once: "count_list (init_configs registry) (init_config entry) = 1
      \<and> count_list (sa_configs registry) (sa_config entry) = 1"
    if "entry \<in> set (configurations registry)" for entry
    using that by (simp add: owned_once_def count_list_distinct)
  have entries: "map (\<lambda>entry. (init_config entry, sa_config entry)) (configurations registry)
      = (default_init_config, default_sa_config) # map snd regs"
    unfolding registry_def created_def
    by (simp add: configurations_add_new_configurations configurations_create
        configuration_entry_create_def)
  from once entries show ?thesis
    unfolding registry_def [symmetric] created_def [symmetric] Let_def
    by (simp add: init_configs_add_new_configuration sa_configs_add_new_configuration
        count_list_destroy_init_config count_list_destroy_sa_config)
qed

theorem add_new_configuration_owns_once_witness:
  "init_configs (add_new_configurations example_created
      [([0x61, 0], 1, 1), ([0x62, 0], 1, 2), ([0x63, 0], 1, 1), ([0x64, 0], 100, 200)]) = [1, 100]
   \<and> sa_configs (add_new_configurations example_created
      [([0x61, 0], 1, 1), ([0x62, 0], 1, 2), ([0x63, 0], 1, 1), ([0x64, 0], 100, 200)]) = [2, 1, 200]
   \<and> map (\<lambda>entry. (init_config entry, sa_config entry))
       (configurations (add_new_configurations example_created
         [([0x61, 0], 1, 1), ([0x62, 0], 1, 2), ([0x63, 0], 1, 1), ([0x64, 0], 100, 200)]))
      = [(100, 200), (1, 1), (1, 2), (1, 1), (100, 200)]
   \<and> count_list (destroy (add_new_configurations example_created
      [([0x61, 0], 1, 1), ([0x62, 0], 1, 2), ([0x63, 0], 1, 1), ([0x64, 0], 100, 200)]))
        (Init_config_destroy 1) = 1
   \<and> count_list (destroy (add_new_configurations example_created
      [([0x61, 0], 1, 1), ([0x62, 0], 1, 2), ([0x63, 0], 1, 1), ([0x64, 0], 100, 200)]))
        (Init_config_destroy 100) = 1
   \<and> count_list (destroy (add_new_configurations example_created
      [([0x61, 0], 1, 1), ([0x62, 0], 1, 2), ([0x63, 0], 1, 1), ([0x64, 0], 100, 200)]))
        (Sa_config_destroy 200) = 1"
  using add_new_configuration_owns_once [where first_timeout = 500 and max_count = 3
      and half_open_timeout = 30000 and default_init_config = 100 and default_sa_config = 200
      and st = example_store
      and regs = "[([0x61, 0], 1, 1), ([0x62, 0], 1, 2), ([0x63, 0], 1, 1), ([0x64, 0], 100, 200)]"]
  by (simp add: example_created_def init_configs_add_new_configuration
      sa_configs_add_new_configuration configurations_add_new_configuration
      configurations_create configuration_entry_create_def Let_def
      count_list_destroy_init_config count_list_destroy_sa_config)

subsection \<open>Retransmission timeout\<close>

text \<open>
  C5. \<^verbatim>\<open>get_retransmit_timeout\<close> returns \<^verbatim>\<open>FAILED\<close> exactly when the maximum retransmit
  count is not zero and the retransmit count is above it. Otherwise it succeeds with the
  first retransmit timeout times \<open>2\<close> to the retransmit count in unsigned 32-bit
  arithmetic, that is the product of the two numbers modulo \<open>2 ^ 32\<close>; for the count
  \<open>0\<close> this is the first retransmit timeout itself.
\<close>

theorem get_retransmit_timeout_doubles:
  "fst (get_retransmit_timeout this retransmit_count) =
     (if max_retransmit_count this \<noteq> 0 \<and> max_retransmit_count this < retransmit_count
      then Inl FAILED
      else Inr (first_retransmit_timeout this * 2 ^ unat retransmit_count))
   \<and> unat (first_retransmit_timeout this * 2 ^ unat retransmit_count)
       = (unat (first_retransmit_timeout this) * 2 ^ unat retransmit_count) mod 2 ^ 32
   \<and> fst (get_retransmit_timeout this 0) = Inr (first_retransmit_timeout this)"
proof -
  have loop: "retransmit_loop 0 n t = t * 2 ^ unat n" for n t
    using retransmit_loop_doubles [of 0 n t] by simp
  have "unat (first_retransmit_timeout this * 2 ^ unat retransmit_count)
       = (unat (first_retransmit_timeout this) * 2 ^ unat retransmit_count) mod 2 ^ 32"
  proof -
    have "first_retransmit_timeout this * 2 ^ unat retransmit_count
        = of_nat (unat (first_retransmit_timeout this) * 2 ^ unat retransmit_count)"
      by simp
    then show ?thesis
      by (simp only: unat_of_nat) simp
  qed
  with loop show ?thesis
    by (simp add: get_retransmit_timeout_def)
qed

theorem get_retransmit_timeout_doubles_witness:
  "fst (get_retransmit_timeout example_created 4) = Inl FAILED
   \<and> fst (get_retransmit_timeout example_created 3) = Inr 4000
   \<and> fst (get_retransmit_timeout example_created_unlimited 40) = Inr 0
   \<and> fst (get_retransmit_timeout example_created_unlimited 0) = Inr 500"
  using get_retransmit_timeout_doubles [of example_created 4]
    get_retransmit_timeout_doubles [of example_created 3]
    get_retransmit_timeout_doubles [of example_created_unlimited 40]
    get_retransmit_timeout_doubles [of example_created_unlimited 0]
  by (simp add: example_created_def example_created_unlimited_def timing_create)

subsection \<open>Preshared secrets\<close>

text \<open>
  C6. Two calls of \<^verbatim>\<open>add_new_preshared_secret\<close> append two entries, also when their
  identifications are equal, and \<^verbatim>\<open>get_shared_secret\<close> then returns the secret of the one
  added first. For the identification of any stored entry the lookup returns the stored
  secret of the first entry with an equal identification; in general it returns the
  secret of the first entry whose identification equals the queried one, and
  \<^verbatim>\<open>NOT_FOUND\<close> when there is none.
\<close>

theorem preshared_secrets_keep_duplicates_in_order:
  "preshared_secrets (add_new_preshared_secret
       (add_new_preshared_secret this type_a id_string_a secret_a) type_b id_string_b secret_b)
     = preshared_secrets this
       @ [\<lparr>identification = identification_create_from_string type_a id_string_a,
            preshared_secret = memcpy secret_a (strlen secret_a + 1)\<rparr>,
          \<lparr>identification = identification_create_from_string type_b id_string_b,
            preshared_secret = memcpy secret_b (strlen secret_b + 1)\<rparr>]
   \<and> (equals (identification_create_from_string type_a id_string_a) identification'
      \<and> equals (identification_create_from_string type_b id_string_b) identification'
      \<and> (\<forall>entry \<in> set (preshared_secrets this). \<not> equals (identification entry) identification')
      \<longrightarrow> fst (get_shared_secret (add_new_preshared_secret
              (add_new_preshared_secret this type_a id_string_a secret_a) type_b id_string_b secret_b)
            identification') = Inr (memcpy secret_a (strlen secret_a + 1)))
   \<and> (entry \<in> set (preshared_secrets this)
      \<longrightarrow> (\<exists>first \<in> set (preshared_secrets this).
            equals (identification first) (identification entry)
            \<and> fst (get_shared_secret this (identification entry)) = Inr (preshared_secret first)))
   \<and> fst (get_shared_secret this identification') =
       (case find (\<lambda>entry. equals (identification entry) identification') (preshared_secrets this) of
          None \<Rightarrow> Inl NOT_FOUND
        | Some entry \<Rightarrow> Inr (preshared_secret entry))
   \<and> ((\<forall>entry \<in> set (preshared_secrets this). \<not> equals (identification entry) identification')
      \<longrightarrow> fst (get_shared_secret this identification') = Inl NOT_FOUND)"
proof -
  have stored: "\<exists>first \<in> set (preshared_secrets this).
            equals (identification first) (identification entry)
            \<and> fst (get_shared_secret this (identification entry)) = Inr (preshared_secret first)"
    if "entry \<in> set (preshared_secrets this)"
    using shared_secret_scan_stored [OF that] by (simp add: get_shared_secret_def)
  have missing: "fst (get_shared_secret this identification') = Inl NOT_FOUND"
    if "\<forall>entry \<in> set (preshared_secrets this). \<not> equals (identification entry) identification'"
    using shared_secret_scan_none [OF that] by (simp add: get_shared_secret_def)
  have twice: "fst (get_shared_secret (add_new_preshared_secret
              (add_new_preshared_secret this type_a id_string_a secret_a) type_b id_string_b secret_b)
            identification') = Inr (memcpy secret_a (strlen secret_a + 1))"
    if "equals (identification_create_from_string type_a id_string_a) identification'"
      and "\<forall>entry \<in> set (preshared_secrets this). \<not> equals (identification entry) identification'"
    using that shared_secret_scan_none [OF that(2)]
    by (simp add: get_shared_secret_def add_new_preshared_secret_def Let_def
        shared_secret_scan_append)
  have find: "fst (get_shared_secret this identification') =
       (case find (\<lambda>entry. equals (identification entry) identification') (preshared_secrets this) of
          None \<Rightarrow> Inl NOT_FOUND
        | Some entry \<Rightarrow> Inr (preshared_secret entry))"
    by (simp add: get_shared_secret_def shared_secret_scan_find)
  have both: "preshared_secrets (add_new_preshared_secret
       (add_new_preshared_secret this type_a id_string_a secret_a) type_b id_string_b secret_b)
     = preshared_secrets this
       @ [\<lparr>identification = identification_create_from_string type_a id_string_a,
            preshared_secret = memcpy secret_a (strlen secret_a + 1)\<rparr>,
          \<lparr>identification = identification_create_from_string type_b id_string_b,
            preshared_secret = memcpy secret_b (strlen secret_b + 1)\<rparr>]"
    by (simp add: add_new_preshared_secret_def Let_def)
  from stored missing twice find both show ?thesis
    by blast
qed

theorem preshared_secrets_keep_duplicates_in_order_witness:
  "preshared_secrets (add_new_preshared_secret
       (add_new_preshared_secret example_created
          ID_IPV4_ADDR [0x41, 0] [0x73, 0x31, 0]) ID_IPV4_ADDR [0x41, 0] [0x73, 0x32, 0])
     = [\<lparr>identification = \<lparr>id_type = ID_IPV4_ADDR, encoded = [0x41]\<rparr>,
           preshared_secret = [0x73, 0x31, 0]\<rparr>,
        \<lparr>identification = \<lparr>id_type = ID_IPV4_ADDR, encoded = [0x41]\<rparr>,
           preshared_secret = [0x73, 0x32, 0]\<rparr>]
   \<and> fst (get_shared_secret (add_new_preshared_secret
       (add_new_preshared_secret example_created
          ID_IPV4_ADDR [0x41, 0] [0x73, 0x31, 0]) ID_IPV4_ADDR [0x41, 0] [0x73, 0x32, 0])
       \<lparr>id_type = ID_IPV4_ADDR, encoded = [0x41]\<rparr>) = Inr [0x73, 0x31, 0]
   \<and> fst (get_shared_secret (add_new_preshared_secret
       (add_new_preshared_secret example_created
          ID_IPV4_ADDR [0x41, 0] [0x73, 0x31, 0]) ID_IPV4_ADDR [0x41, 0] [0x73, 0x32, 0])
       \<lparr>id_type = ID_FQDN, encoded = [0x41]\<rparr>) = Inl NOT_FOUND"
  using preshared_secrets_keep_duplicates_in_order [where
      ?this = example_created
      and type_a = ID_IPV4_ADDR and id_string_a = "[0x41, 0]" and secret_a = "[0x73, 0x31, 0]"
      and type_b = ID_IPV4_ADDR and id_string_b = "[0x41, 0]" and secret_b = "[0x73, 0x32, 0]"
      and identification' = "\<lparr>id_type = ID_IPV4_ADDR, encoded = [0x41]\<rparr>"
      and entry = "\<lparr>identification = \<lparr>id_type = ID_IPV4_ADDR, encoded = [0x41]\<rparr>,
           preshared_secret = [0x73, 0x32, 0]\<rparr>"]
    preshared_secrets_keep_duplicates_in_order [where
      ?this = "add_new_preshared_secret
       (add_new_preshared_secret example_created
          ID_IPV4_ADDR [0x41, 0] [0x73, 0x31, 0]) ID_IPV4_ADDR [0x41, 0] [0x73, 0x32, 0]"
      and identification' = "\<lparr>id_type = ID_FQDN, encoded = [0x41]\<rparr>"
      and entry = "\<lparr>identification = \<lparr>id_type = ID_IPV4_ADDR, encoded = [0x41]\<rparr>,
           preshared_secret = [0x73, 0x32, 0]\<rparr>"]
  by (simp add: add_new_preshared_secret_def example_created_def configurations_create Let_def
      identification_create_from_string_def c_str_def memcpy_def equals_def get_shared_secret_def)

subsection \<open>Resolution by name\<close>

text \<open>
  C7. \<^verbatim>\<open>get_init_config_for_name\<close> and \<^verbatim>\<open>get_sa_config_for_name\<close> return the
  \<^verbatim>\<open>init_config\<close>, respectively the \<^verbatim>\<open>sa_config\<close>, of the first entry, in the order of
  registration, whose name is the queried string, and \<^verbatim>\<open>NOT_FOUND\<close> when no entry has
  that name; an entry holds the string it was registered with.
\<close>

theorem get_config_for_name_first_exact_match:
  "fst (get_init_config_for_name this name') =
     (case find (\<lambda>entry. c_str (name entry) = c_str name') (configurations this) of
        None \<Rightarrow> Inl NOT_FOUND
      | Some entry \<Rightarrow> Inr (init_config entry))
   \<and> fst (get_sa_config_for_name this name') =
     (case find (\<lambda>entry. c_str (name entry) = c_str name') (configurations this) of
        None \<Rightarrow> Inl NOT_FOUND
      | Some entry \<Rightarrow> Inr (sa_config entry))
   \<and> c_str (name (configuration_entry_create registered init_config' sa_config')) = c_str registered"
  by (simp add: get_init_config_for_name_def get_sa_config_for_name_def
      init_config_for_name_scan_find sa_config_for_name_scan_find
      configuration_entry_create_def c_str_strcpy)

theorem get_config_for_name_first_exact_match_witness:
  "fst (get_init_config_for_name (add_new_configurations example_created
      [([0x61, 0x62, 0], 1, 2), ([0x61, 0], 3, 4), ([0x61, 0], 5, 6)]) [0x61, 0]) = Inr 3
   \<and> fst (get_sa_config_for_name (add_new_configurations example_created
      [([0x61, 0x62, 0], 1, 2), ([0x61, 0], 3, 4), ([0x61, 0], 5, 6)]) [0x61, 0]) = Inr 4
   \<and> fst (get_init_config_for_name (add_new_configurations example_created
      [([0x61, 0x62, 0], 1, 2), ([0x61, 0], 3, 4), ([0x61, 0], 5, 6)]) [0x41, 0]) = Inl NOT_FOUND
   \<and> fst (get_sa_config_for_name (add_new_configurations example_created
      [([0x61, 0x62, 0], 1, 2), ([0x61, 0], 3, 4), ([0x61, 0], 5, 6)]) [0x61, 0x62, 0x63, 0]) = Inl NOT_FOUND"
  using get_config_for_name_first_exact_match [where
      ?this = "add_new_configurations example_created
        [([0x61, 0x62, 0], 1, 2), ([0x61, 0], 3, 4), ([0x61, 0], 5, 6)]"
      and name' = "[0x61, 0]"]
    get_config_for_name_first_exact_match [where
      ?this = "add_new_configurations example_created
        [([0x61, 0x62, 0], 1, 2), ([0x61, 0], 3, 4), ([0x61, 0], 5, 6)]"
      and name' = "[0x41, 0]"]
    get_config_for_name_first_exact_match [where
      ?this = "add_new_configurations example_created
        [([0x61, 0x62, 0], 1, 2), ([0x61, 0], 3, 4), ([0x61, 0], 5, 6)]"
      and name' = "[0x61, 0x62, 0x63, 0]"]
  by (simp add: example_created_def configurations_add_new_configuration configurations_create
      configuration_entry_create_def strcpy_def c_str_def literal_def)

subsection \<open>Lookups and the state\<close>

text \<open>
  C8. Each of the nine lookups returns, next to its result, the state it was called on:
  the six lists and the three timing values are what they were, for every input.
\<close>

theorem lookups_leave_state_unchanged:
  "snd (get_init_config_for_host st this my_host other_host) = this
   \<and> snd (get_init_config_for_name this name') = this
   \<and> snd (get_sa_config_for_name this name') = this
   \<and> snd (get_sa_config_for_init_config_and_id st this init_config' other_id my_id) = this
   \<and> snd (get_shared_secret this identification') = this
   \<and> snd (get_rsa_public_key this identification') = this
   \<and> snd (get_rsa_private_key this identification') = this
   \<and> snd (get_retransmit_timeout this retransmit_count) = this
   \<and> snd (get_half_open_ike_sa_timeout this) = this"
  by (simp add: get_init_config_for_host_def get_init_config_for_name_def
      get_sa_config_for_name_def get_sa_config_for_init_config_and_id_def
      get_shared_secret_def get_rsa_public_key_def get_rsa_private_key_def
      get_retransmit_timeout_def get_half_open_ike_sa_timeout_def)

subsection \<open>The terminator of a stored secret\<close>

text \<open>
  C9. For a secret string that is terminated by a zero byte,
  \<^verbatim>\<open>add_new_preshared_secret\<close> stores a chunk of \<open>strlen + 1\<close> bytes, the string followed by
  the zero byte, and \<^verbatim>\<open>get_shared_secret\<close> returns the chunk with that byte.
\<close>

theorem add_new_preshared_secret_keeps_terminator:
  "0 \<in> set secret \<longrightarrow>
     (let stored = preshared_secret (last (preshared_secrets
            (add_new_preshared_secret this type id_string secret)))
      in length stored = strlen secret + 1 \<and> last stored = 0 \<and> stored = c_str secret @ [0])
     \<and> ((\<forall>entry \<in> set (preshared_secrets this).
            \<not> equals (identification entry) (identification_create_from_string type id_string))
        \<longrightarrow> fst (get_shared_secret (add_new_preshared_secret this type id_string secret)
               (identification_create_from_string type id_string)) = Inr (c_str secret @ [0]))"
proof
  assume terminated: "0 \<in> set secret"
  have stored: "preshared_secret (last (preshared_secrets
      (add_new_preshared_secret this type id_string secret))) = c_str secret @ [0]"
    using terminated by (simp add: add_new_preshared_secret_def Let_def memcpy_c_string)
  have returned: "fst (get_shared_secret (add_new_preshared_secret this type id_string secret)
      (identification_create_from_string type id_string)) = Inr (c_str secret @ [0])"
    if "\<forall>entry \<in> set (preshared_secrets this).
        \<not> equals (identification entry) (identification_create_from_string type id_string)"
    using terminated shared_secret_scan_none [OF that]
    by (simp add: get_shared_secret_def add_new_preshared_secret_def Let_def
        shared_secret_scan_append memcpy_c_string equals_def)
  from stored returned
  show "(let stored = preshared_secret (last (preshared_secrets
            (add_new_preshared_secret this type id_string secret)))
      in length stored = strlen secret + 1 \<and> last stored = 0 \<and> stored = c_str secret @ [0])
     \<and> ((\<forall>entry \<in> set (preshared_secrets this).
            \<not> equals (identification entry) (identification_create_from_string type id_string))
        \<longrightarrow> fst (get_shared_secret (add_new_preshared_secret this type id_string secret)
               (identification_create_from_string type id_string)) = Inr (c_str secret @ [0]))"
    by (simp add: Let_def strlen_c_str)
qed

theorem add_new_preshared_secret_keeps_terminator_witness:
  "(0 :: u_int8_t) \<in> set [0x76, 0x65, 0x72, 0, 0x78]
   \<and> strlen [0x76, 0x65, 0x72, 0, 0x78] = 3
   \<and> preshared_secret (last (preshared_secrets (add_new_preshared_secret
        example_created ID_IPV4_ADDR [0x41, 0] [0x76, 0x65, 0x72, 0, 0x78])))
      = [0x76, 0x65, 0x72, 0]
   \<and> fst (get_shared_secret (add_new_preshared_secret
        example_created ID_IPV4_ADDR [0x41, 0] [0x76, 0x65, 0x72, 0, 0x78])
        (identification_create_from_string ID_IPV4_ADDR [0x41, 0])) = Inr [0x76, 0x65, 0x72, 0]"
  using add_new_preshared_secret_keeps_terminator [where secret = "[0x76, 0x65, 0x72, 0, 0x78]"
      and ?this = example_created and type = ID_IPV4_ADDR
      and id_string = "[0x41, 0]"]
  by (simp add: example_created_def configurations_create c_str_def Let_def)

subsection \<open>The two branches of the host match\<close>

text \<open>
  C10. In \<^verbatim>\<open>get_init_config_for_host\<close>, an entry whose remote host is ip-equal to the
  remote host of the query, and whose local host is neither default-route nor ip-equal to
  the local host of the query, is passed over after three calls, \<^verbatim>\<open>ip_is_equal\<close> on its
  remote host and \<^verbatim>\<open>is_default_route\<close> and \<^verbatim>\<open>ip_is_equal\<close> on its local host, without a call
  of \<^verbatim>\<open>is_default_route\<close> on its remote host, and the scan goes on with the next entry, so
  that the method returns what it returns for the entries after it. For every entry the
  loop calls \<^verbatim>\<open>is_default_route\<close> on the remote host exactly when the remote host is not
  ip-equal to the remote host of the query. The recorded loop returns what the method
  returns.
\<close>

theorem get_init_config_for_host_branches_exclusive:
  "(ip_is_equal (get_other_host (init_config_at st (init_config entry))) other_host
     \<and> \<not> is_default_route (get_my_host (init_config_at st (init_config entry)))
     \<and> \<not> ip_is_equal (get_my_host (init_config_at st (init_config entry))) my_host
     \<longrightarrow> init_config_for_host_scan_calls st (entry # rest) my_host other_host
           = apsnd ((@) [Ip_is_equal (init_config entry) Config_other_host other_host,
                         Is_default_route (init_config entry) Config_my_host,
                         Ip_is_equal (init_config entry) Config_my_host my_host])
               (init_config_for_host_scan_calls st rest my_host other_host)
         \<and> fst (get_init_config_for_host st (this\<lparr>configurations := entry # rest\<rparr>) my_host other_host)
           = fst (get_init_config_for_host st (this\<lparr>configurations := rest\<rparr>) my_host other_host))
   \<and> (Is_default_route (init_config entry) Config_other_host
         \<in> set (snd (init_config_for_host_scan_calls st [entry] my_host other_host))
       \<longleftrightarrow> \<not> ip_is_equal (get_other_host (init_config_at st (init_config entry))) other_host)
   \<and> fst (init_config_for_host_scan_calls st (configurations this) my_host other_host)
       = fst (get_init_config_for_host st this my_host other_host)"
proof -
  have single: "Is_default_route (init_config entry) Config_other_host
         \<in> set (snd (init_config_for_host_scan_calls st [entry] my_host other_host))
       \<longleftrightarrow> \<not> ip_is_equal (get_other_host (init_config_at st (init_config entry))) other_host"
    by (simp add: Let_def)
  have result: "fst (init_config_for_host_scan_calls st (configurations this) my_host other_host)
       = fst (get_init_config_for_host st this my_host other_host)"
    by (simp add: get_init_config_for_host_def init_config_for_host_scan_calls_result)
  from single result show ?thesis
    by (simp add: get_init_config_for_host_def Let_def)
qed

theorem get_init_config_for_host_branches_exclusive_witness:
  "ip_is_equal (get_other_host (init_config_at example_store (init_config (example_entry 3 1))))
     (example_host 0x01020300 False)
   \<and> is_default_route (get_other_host (init_config_at example_store (init_config (example_entry 3 1))))
   \<and> \<not> is_default_route (get_my_host (init_config_at example_store (init_config (example_entry 3 1))))
   \<and> \<not> ip_is_equal (get_my_host (init_config_at example_store (init_config (example_entry 3 1))))
       (example_host 0x09090909 False)
   \<and> init_config_for_host_scan_calls example_store [example_entry 3 1, example_entry 2 2]
        (example_host 0x09090909 False) (example_host 0x01020300 False)
     = (Inr 2,
        [Ip_is_equal 3 Config_other_host (example_host 0x01020300 False),
         Is_default_route 3 Config_my_host,
         Ip_is_equal 3 Config_my_host (example_host 0x09090909 False),
         Ip_is_equal 2 Config_other_host (example_host 0x01020300 False),
         Is_default_route 2 Config_other_host,
         Is_default_route 2 Config_my_host])
   \<and> fst (get_init_config_for_host example_store
        (example_manager [example_entry 3 1, example_entry 2 2])
        (example_host 0x09090909 False) (example_host 0x01020300 False))
     = fst (get_init_config_for_host example_store (example_manager [example_entry 2 2])
        (example_host 0x09090909 False) (example_host 0x01020300 False))
   \<and> fst (get_init_config_for_host example_store (example_manager [example_entry 2 2])
        (example_host 0x09090909 False) (example_host 0x01020300 False)) = Inr 2
   \<and> init_config_for_host_scan_calls example_store [example_entry 3 1]
        (example_host 0x09090909 False) (example_host 0x01020300 False)
     = (Inl NOT_FOUND,
        [Ip_is_equal 3 Config_other_host (example_host 0x01020300 False),
         Is_default_route 3 Config_my_host,
         Ip_is_equal 3 Config_my_host (example_host 0x09090909 False)])"
  using get_init_config_for_host_branches_exclusive [where st = example_store
      and entry = "example_entry 3 1" and other_host = "example_host 0x01020300 False"
      and my_host = "example_host 0x09090909 False"
      and ?this = "example_manager [example_entry 3 1, example_entry 2 2]"
      and rest = "[example_entry 2 2]"]
  by (simp add: example_manager_def example_store_def example_init_config_def
      example_entry_def example_host_def ip_is_equal_def is_default_route_def
      get_init_config_for_host_def)

end
